theory Spec2Isabelle
  imports Complex_Main
begin

section \<open>Sentora central server: data model\<close>

text \<open>
  The development follows \<^verbatim>\<open>server.py\<close>. Python floats are modelled as reals (the
  ordering of finite floats; NaN is left out), a \<^verbatim>\<open>dict\<close> is an association list in
  insertion order, read with \<open>map_of\<close>. A point in time (\<^verbatim>\<open>datetime.now()\<close>) is a real
  number of seconds; the server stores times as \<^verbatim>\<open>isoformat()\<close> strings and lets
  MongoDB compare them as strings, which orders them as the naive datetimes themselves
  are ordered (fixed-width fields, the fraction being dropped only when it is zero), so
  the model keeps the number. One run of a handler reads the server's clock once; the
  Redis server stamps its commands with its own clock.
\<close>

type_synonym time = real

text \<open>Values of Python's \<^verbatim>\<open>Any\<close> as they arrive from JSON or BSON.\<close>

datatype pyval =
    VNone
  | VBool bool
  | VInt int
  | VFloat real
  | VStr string
  | VList "pyval list"
  | VDict "(string \<times> pyval) list"

text \<open>Python's truth value of an object, as \<^verbatim>\<open>if x:\<close> computes it.\<close>

fun py_truthy :: "pyval \<Rightarrow> bool" where
  "py_truthy VNone = False"
| "py_truthy (VBool b) = b"
| "py_truthy (VInt i) = (i \<noteq> 0)"
| "py_truthy (VFloat r) = (r \<noteq> 0)"
| "py_truthy (VStr s) = (s \<noteq> [])"
| "py_truthy (VList xs) = (xs \<noteq> [])"
| "py_truthy (VDict kvs) = (kvs \<noteq> [])"

text \<open>Decimal rendering of integers, as \<^verbatim>\<open>str\<close> gives it.\<close>

fun str_nat :: "nat \<Rightarrow> string" where
  "str_nat n =
     (if n < 10 then [''0123456789'' ! n]
      else str_nat (n div 10) @ [''0123456789'' ! (n mod 10)])"

declare str_nat.simps [simp del]

definition str_int :: "int \<Rightarrow> string" where
  "str_int i = (if i < 0 then CHR ''-'' # str_nat (nat (- i)) else str_nat (nat i))"

text \<open>MongoDB document ids: the driver creates an \<^verbatim>\<open>ObjectId\<close> for an inserted
  document that has none; a query may also carry a string. Values of the two BSON types
  are never equal. \<^verbatim>\<open>str\<close> of an ObjectId is its 24 hexadecimal digits.\<close>

datatype bson_id = ObjectId nat | IdStr string

fun hex_digits :: "nat \<Rightarrow> nat \<Rightarrow> string" where
  "hex_digits 0 n = []"
| "hex_digits (Suc k) n = hex_digits k (n div 16) @ [''0123456789abcdef'' ! (n mod 16)]"

definition str_ObjectId :: "nat \<Rightarrow> string" where
  "str_ObjectId n = hex_digits 24 n"

record MetricsData =
  cpu_usage :: "real option"
  ram_usage :: "real option"
  disk_usage :: "(string \<times> real) list option"
  network :: "(string \<times> (string \<times> real) list) list option"
  services :: "(string \<times> string) list option"
  ssh_brute_force :: "(string \<times> pyval) list option"
  timestamp :: string
  agent_name :: string
  hostname :: string

record AlertConfig =
  cpu_threshold :: real
  ram_threshold :: real
  disk_threshold :: real
  service_alerts :: bool
  ssh_brute_force_alerts :: bool

text \<open>The field defaults of the class \<^verbatim>\<open>AlertConfig\<close>.\<close>

definition default_AlertConfig :: AlertConfig where
  "default_AlertConfig =
     \<lparr>cpu_threshold = 80, ram_threshold = 85, disk_threshold = 90,
      service_alerts = True, ssh_brute_force_alerts = True\<rparr>"

text \<open>A document of the \<^verbatim>\<open>alerts\<close> collection, as \<^verbatim>\<open>send_alert\<close> inserts it.\<close>

record alert_doc =
  alert_id :: bson_id
  alert_agent_name :: string
  alert_hostname :: string
  alert_type :: string
  message :: string
  alert_timestamp :: time
  acknowledged :: bool

text \<open>A document of the \<^verbatim>\<open>agents\<close> collection: \<^verbatim>\<open>receive_metrics\<close> writes name,
  hostname and last\_seen, \<^verbatim>\<open>update_agent_config\<close> writes alert\_config.\<close>

record agent_doc =
  name :: string
  agent_hostname :: string
  last_seen :: time
  alert_config :: "(string \<times> pyval) list option"

text \<open>An entry of the list \<^verbatim>\<open>alerts_sent\<close> that \<^verbatim>\<open>check_thresholds\<close> returns: the
  keys \<^verbatim>\<open>type\<close> and \<^verbatim>\<open>id\<close>, and \<^verbatim>\<open>path\<close> or \<^verbatim>\<open>service\<close> where the source adds them.\<close>

record sent_alert =
  sent_type :: string
  sent_id :: string
  sent_path :: "string option"
  sent_service :: "string option"

datatype channel = Email | Telegram | Discord

text \<open>What the outside world answers to a send: the call returns (for the two HTTP
  channels with a status code) or raises.\<close>

datatype io_result = Returned nat | Raised

datatype request =
    SmtpMessage string string
  | TelegramPost string
  | DiscordPost string

text \<open>What the server leaves behind besides its collections: the insertion of an
  alert and one entry per call of a channel function (each of them logs its result).\<close>

datatype event =
    AlertStored bson_id
  | ChannelSent channel
  | ChannelFailed channel
  | ChannelDisabled channel

datatype error = HTTPException nat string | ValidationError string

text \<open>The Redis keyspace: a value and, when set with \<^verbatim>\<open>ex=\<close>, the time it expires.\<close>

type_synonym redis_db = "string \<rightharpoonup> (string \<times> time option)"

record server =
  metrics_collection :: "MetricsData list"
  alerts_collection :: "alert_doc list"
  agents_collection :: "agent_doc list"
  redis :: redis_db
  next_oid :: nat
  journal :: "event list"

text \<open>
  The process environment and the libraries the source calls but does not contain:
  the settings read from environment variables, Python's rendering of floats, of
  containers and of datetimes, pydantic's field validators for \<^verbatim>\<open>float\<close> and
  \<^verbatim>\<open>bool\<close>, the answers of the outside world to the sends, indexed by the number
  of journal entries written so far, and the time on the Redis server at which it
  serves the \<^verbatim>\<open>GET\<close> and the \<^verbatim>\<open>SET\<close> on a key, in the run of the periodic task that
  read the server's clock at the given time.
\<close>

record env =
  ALERT_EMAIL_ENABLED :: bool
  ALERT_TELEGRAM_ENABLED :: bool
  ALERT_DISCORD_ENABLED :: bool
  API_KEYS :: "string list"
  fmt_float :: "real \<Rightarrow> string"
  fmt_container :: "pyval \<Rightarrow> string"
  isoformat :: "time \<Rightarrow> string"
  validate_float :: "pyval \<Rightarrow> real option"
  validate_bool :: "pyval \<Rightarrow> bool option"
  transport :: "request \<Rightarrow> nat \<Rightarrow> io_result"
  redis_time_get :: "time \<Rightarrow> string \<Rightarrow> time"
  redis_time_set :: "time \<Rightarrow> string \<Rightarrow> time"

text \<open>\<^verbatim>\<open>str\<close> of a value, as an f-string inserts it.\<close>

fun py_str :: "env \<Rightarrow> pyval \<Rightarrow> string" where
  "py_str env VNone = ''None''"
| "py_str env (VBool b) = (if b then ''True'' else ''False'')"
| "py_str env (VInt i) = str_int i"
| "py_str env (VFloat r) = fmt_float env r"
| "py_str env (VStr s) = s"
| "py_str env (VList xs) = fmt_container env (VList xs)"
| "py_str env (VDict kvs) = fmt_container env (VDict kvs)"

section \<open>Helper functions\<close>

definition verify_api_key :: "env \<Rightarrow> string \<Rightarrow> error + string" where
  "verify_api_key env x_api_key =
     (if x_api_key \<notin> set (API_KEYS env) then Inl (HTTPException 401 ''Invalid API key'')
      else Inr x_api_key)"

definition log_event :: "event \<Rightarrow> server \<Rightarrow> server" where
  "log_event e st = st\<lparr>journal := journal st @ [e]\<rparr>"

definition send_email_alert :: "env \<Rightarrow> string \<Rightarrow> string \<Rightarrow> server \<Rightarrow> bool \<times> server" where
  "send_email_alert env subject msg st =
     (if \<not> ALERT_EMAIL_ENABLED env then (False, log_event (ChannelDisabled Email) st)
      else case transport env (SmtpMessage subject msg) (length (journal st)) of
             Returned code \<Rightarrow> (True, log_event (ChannelSent Email) st)
           | Raised \<Rightarrow> (False, log_event (ChannelFailed Email) st))"

definition send_telegram_alert :: "env \<Rightarrow> string \<Rightarrow> server \<Rightarrow> bool \<times> server" where
  "send_telegram_alert env msg st =
     (if \<not> ALERT_TELEGRAM_ENABLED env then (False, log_event (ChannelDisabled Telegram) st)
      else case transport env (TelegramPost msg) (length (journal st)) of
             Returned code \<Rightarrow>
               (if code = 200 then (True, log_event (ChannelSent Telegram) st)
                else (False, log_event (ChannelFailed Telegram) st))
           | Raised \<Rightarrow> (False, log_event (ChannelFailed Telegram) st))"

definition send_discord_alert :: "env \<Rightarrow> string \<Rightarrow> server \<Rightarrow> bool \<times> server" where
  "send_discord_alert env msg st =
     (if \<not> ALERT_DISCORD_ENABLED env then (False, log_event (ChannelDisabled Discord) st)
      else case transport env (DiscordPost msg) (length (journal st)) of
             Returned code \<Rightarrow>
               (if code = 204 then (True, log_event (ChannelSent Discord) st)
                else (False, log_event (ChannelFailed Discord) st))
           | Raised \<Rightarrow> (False, log_event (ChannelFailed Discord) st))"

text \<open>\<^verbatim>\<open>alerts_collection.insert_one\<close>: the driver gives the document a fresh
  ObjectId, appends it and returns the id.\<close>

definition insert_alert ::
  "string \<Rightarrow> string \<Rightarrow> string \<Rightarrow> string \<Rightarrow> time \<Rightarrow> server \<Rightarrow> bson_id \<times> server" where
  "insert_alert agent host ty msg ts st =
     (let oid = ObjectId (next_oid st);
          doc = \<lparr>alert_id = oid, alert_agent_name = agent, alert_hostname = host,
                 alert_type = ty, message = msg, alert_timestamp = ts,
                 acknowledged = False\<rparr>
      in (oid, st\<lparr>alerts_collection := alerts_collection st @ [doc],
                  next_oid := Suc (next_oid st),
                  journal := journal st @ [AlertStored oid]\<rparr>))"

fun str_bson_id :: "bson_id \<Rightarrow> string" where
  "str_bson_id (ObjectId n) = str_ObjectId n"
| "str_bson_id (IdStr s) = s"

definition format_alert_message ::
  "env \<Rightarrow> string \<Rightarrow> string \<Rightarrow> string \<Rightarrow> time \<Rightarrow> string \<Rightarrow> string" where
  "format_alert_message env ty agent host ts msg =
     [CHR 0x0A] @ ''ALERT: '' @ ty @ [CHR 0x0A]
     @ ''Agent: '' @ agent @ '' ('' @ host @ '')'' @ [CHR 0x0A]
     @ ''Time: '' @ isoformat env ts @ [CHR 0x0A]
     @ ''Message: '' @ msg @ [CHR 0x0A] @ ''    ''"

definition send_alert ::
  "env \<Rightarrow> time \<Rightarrow> string \<Rightarrow> string \<Rightarrow> string \<Rightarrow> string \<Rightarrow> server \<Rightarrow> string \<times> server" where
  "send_alert env now ty agent host msg st =
     (let (aid, st1) = insert_alert agent host ty msg now st;
          alert_message = format_alert_message env ty agent host now msg;
          st2 = (if ALERT_EMAIL_ENABLED env
                 then snd (send_email_alert env
                             (''Sentora Alert: '' @ ty @ '' on '' @ host) alert_message st1)
                 else st1);
          st3 = (if ALERT_TELEGRAM_ENABLED env
                 then snd (send_telegram_alert env alert_message st2) else st2);
          st4 = (if ALERT_DISCORD_ENABLED env
                 then snd (send_discord_alert env alert_message st3) else st3)
      in (str_bson_id aid, st4))"

section \<open>Policy resolution\<close>

text \<open>\<^verbatim>\<open>AlertConfig(**d)\<close>: a key that is present goes through the validator of its
  field, a key that is absent takes the field's default, other keys are ignored; when a
  validator refuses a value, the constructor raises.\<close>

definition float_field :: "env \<Rightarrow> (string \<times> pyval) list \<Rightarrow> string \<Rightarrow> real \<Rightarrow> real option" where
  "float_field env d k dflt =
     (case map_of d k of None \<Rightarrow> Some dflt | Some v \<Rightarrow> validate_float env v)"

definition bool_field :: "env \<Rightarrow> (string \<times> pyval) list \<Rightarrow> string \<Rightarrow> bool \<Rightarrow> bool option" where
  "bool_field env d k dflt =
     (case map_of d k of None \<Rightarrow> Some dflt | Some v \<Rightarrow> validate_bool env v)"

definition AlertConfig_init :: "env \<Rightarrow> (string \<times> pyval) list \<Rightarrow> error + AlertConfig" where
  "AlertConfig_init env d =
     (case float_field env d ''cpu_threshold'' (cpu_threshold default_AlertConfig) of
        None \<Rightarrow> Inl (ValidationError ''AlertConfig'')
      | Some c \<Rightarrow>
     (case float_field env d ''ram_threshold'' (ram_threshold default_AlertConfig) of
        None \<Rightarrow> Inl (ValidationError ''AlertConfig'')
      | Some r \<Rightarrow>
     (case float_field env d ''disk_threshold'' (disk_threshold default_AlertConfig) of
        None \<Rightarrow> Inl (ValidationError ''AlertConfig'')
      | Some k \<Rightarrow>
     (case bool_field env d ''service_alerts'' (service_alerts default_AlertConfig) of
        None \<Rightarrow> Inl (ValidationError ''AlertConfig'')
      | Some s \<Rightarrow>
     (case bool_field env d ''ssh_brute_force_alerts''
             (ssh_brute_force_alerts default_AlertConfig) of
        None \<Rightarrow> Inl (ValidationError ''AlertConfig'')
      | Some b \<Rightarrow>
          Inr \<lparr>cpu_threshold = c, ram_threshold = r, disk_threshold = k,
               service_alerts = s, ssh_brute_force_alerts = b\<rparr>)))))"

text \<open>The first lines of \<^verbatim>\<open>check_thresholds\<close>: the agent's document is looked up by
  name; its \<^verbatim>\<open>alert_config\<close>, when there is one, is passed to the constructor, with
  no handler around it.\<close>

definition get_alert_config :: "env \<Rightarrow> server \<Rightarrow> string \<Rightarrow> error + AlertConfig" where
  "get_alert_config env st agent =
     (case find (\<lambda>a. name a = agent) (agents_collection st) of
        Some agent_config \<Rightarrow>
          (case alert_config agent_config of
             Some d \<Rightarrow> AlertConfig_init env d
           | None \<Rightarrow> Inr default_AlertConfig)
      | None \<Rightarrow> Inr default_AlertConfig)"

section \<open>Threshold checks\<close>

type_synonym acc = "sent_alert list \<times> server"

text \<open>The two lines every check ends with: send the alert, append its id and type
  to \<^verbatim>\<open>alerts_sent\<close>.\<close>

definition send_and_record ::
  "env \<Rightarrow> time \<Rightarrow> MetricsData \<Rightarrow> string \<Rightarrow> string \<Rightarrow> string option \<Rightarrow> string option
     \<Rightarrow> acc \<Rightarrow> acc" where
  "send_and_record env now m ty msg path svc acc =
     (let (aid, st') = send_alert env now ty (agent_name m) (hostname m) msg (snd acc)
      in (fst acc @ [\<lparr>sent_type = ty, sent_id = aid, sent_path = path, sent_service = svc\<rparr>],
          st'))"

definition cpu_message :: "env \<Rightarrow> real \<Rightarrow> AlertConfig \<Rightarrow> string" where
  "cpu_message env c cfg =
     ''CPU usage is '' @ fmt_float env c @ ''%, which exceeds the threshold of ''
     @ fmt_float env (cpu_threshold cfg) @ ''%''"

definition ram_message :: "env \<Rightarrow> real \<Rightarrow> AlertConfig \<Rightarrow> string" where
  "ram_message env r cfg =
     ''RAM usage is '' @ fmt_float env r @ ''%, which exceeds the threshold of ''
     @ fmt_float env (ram_threshold cfg) @ ''%''"

definition disk_message :: "env \<Rightarrow> string \<Rightarrow> real \<Rightarrow> AlertConfig \<Rightarrow> string" where
  "disk_message env path usage cfg =
     ''Disk usage for '' @ path @ '' is '' @ fmt_float env usage
     @ ''%, which exceeds the threshold of '' @ fmt_float env (disk_threshold cfg) @ ''%''"

definition service_message :: "string \<Rightarrow> string \<Rightarrow> string" where
  "service_message service status = ''Service '' @ service @ '' is '' @ status"

definition ssh_message :: "env \<Rightarrow> pyval \<Rightarrow> string" where
  "ssh_message env failed_attempts =
     ''SSH brute force attack detected with '' @ py_str env failed_attempts
     @ '' failed login attempts''"

definition check_cpu :: "env \<Rightarrow> time \<Rightarrow> MetricsData \<Rightarrow> AlertConfig \<Rightarrow> acc \<Rightarrow> acc" where
  "check_cpu env now m cfg acc =
     (case cpu_usage m of
        None \<Rightarrow> acc
      | Some c \<Rightarrow>
          if c > cpu_threshold cfg
          then send_and_record env now m ''CPU_HIGH'' (cpu_message env c cfg) None None acc
          else acc)"

definition check_ram :: "env \<Rightarrow> time \<Rightarrow> MetricsData \<Rightarrow> AlertConfig \<Rightarrow> acc \<Rightarrow> acc" where
  "check_ram env now m cfg acc =
     (case ram_usage m of
        None \<Rightarrow> acc
      | Some r \<Rightarrow>
          if r > ram_threshold cfg
          then send_and_record env now m ''RAM_HIGH'' (ram_message env r cfg) None None acc
          else acc)"

fun disk_loop ::
  "env \<Rightarrow> time \<Rightarrow> MetricsData \<Rightarrow> AlertConfig \<Rightarrow> (string \<times> real) list \<Rightarrow> acc \<Rightarrow> acc" where
  "disk_loop env now m cfg [] acc = acc"
| "disk_loop env now m cfg ((path, usage) # rest) acc =
     (if usage > disk_threshold cfg
      then disk_loop env now m cfg rest
             (send_and_record env now m ''DISK_HIGH'' (disk_message env path usage cfg)
                (Some path) None acc)
      else disk_loop env now m cfg rest acc)"

definition check_disk :: "env \<Rightarrow> time \<Rightarrow> MetricsData \<Rightarrow> AlertConfig \<Rightarrow> acc \<Rightarrow> acc" where
  "check_disk env now m cfg acc =
     (case disk_usage m of
        None \<Rightarrow> acc
      | Some items \<Rightarrow> disk_loop env now m cfg items acc)"

fun service_loop ::
  "env \<Rightarrow> time \<Rightarrow> MetricsData \<Rightarrow> (string \<times> string) list \<Rightarrow> acc \<Rightarrow> acc" where
  "service_loop env now m [] acc = acc"
| "service_loop env now m ((service, status) # rest) acc =
     (if status \<noteq> ''active''
      then service_loop env now m rest
             (send_and_record env now m ''SERVICE_DOWN'' (service_message service status)
                None (Some service) acc)
      else service_loop env now m rest acc)"

definition check_services :: "env \<Rightarrow> time \<Rightarrow> MetricsData \<Rightarrow> AlertConfig \<Rightarrow> acc \<Rightarrow> acc" where
  "check_services env now m cfg acc =
     (if service_alerts cfg
      then (case services m of
              None \<Rightarrow> acc
            | Some items \<Rightarrow> service_loop env now m items acc)
      else acc)"

text \<open>\<^verbatim>\<open>d.get(k, default)\<close>.\<close>

definition dict_get :: "(string \<times> pyval) list \<Rightarrow> string \<Rightarrow> pyval \<Rightarrow> pyval" where
  "dict_get d k dflt = (case map_of d k of None \<Rightarrow> dflt | Some v \<Rightarrow> v)"

definition check_ssh :: "env \<Rightarrow> time \<Rightarrow> MetricsData \<Rightarrow> AlertConfig \<Rightarrow> acc \<Rightarrow> acc" where
  "check_ssh env now m cfg acc =
     (if ssh_brute_force_alerts cfg
      then (case ssh_brute_force m of
              None \<Rightarrow> acc
            | Some d \<Rightarrow>
                if py_truthy (dict_get d ''threshold_exceeded'' (VBool False))
                then (let failed_attempts = dict_get d ''failed_attempts'' (VInt 0)
                      in send_and_record env now m ''SSH_BRUTE_FORCE''
                           (ssh_message env failed_attempts) None None acc)
                else acc)
      else acc)"

text \<open>The five checks of \<^verbatim>\<open>check_thresholds\<close>, in the order of the source.\<close>

definition run_checks :: "env \<Rightarrow> time \<Rightarrow> MetricsData \<Rightarrow> AlertConfig \<Rightarrow> server \<Rightarrow> acc" where
  "run_checks env now m cfg st =
     check_ssh env now m cfg
       (check_services env now m cfg
          (check_disk env now m cfg
             (check_ram env now m cfg
                (check_cpu env now m cfg ([], st)))))"

definition check_thresholds :: "env \<Rightarrow> time \<Rightarrow> MetricsData \<Rightarrow> server \<Rightarrow> error + acc" where
  "check_thresholds env now m st =
     (case get_alert_config env st (agent_name m) of
        Inl e \<Rightarrow> Inl e
      | Inr cfg \<Rightarrow> Inr (run_checks env now m cfg st))"

section \<open>API endpoints\<close>

text \<open>\<^verbatim>\<open>agents_collection.update_one({"name": n}, {"$set": ...}, upsert=True)\<close>.\<close>

fun upsert_agent :: "string \<Rightarrow> string \<Rightarrow> time \<Rightarrow> agent_doc list \<Rightarrow> agent_doc list" where
  "upsert_agent n h t [] =
     [\<lparr>name = n, agent_hostname = h, last_seen = t, alert_config = None\<rparr>]"
| "upsert_agent n h t (a # as) =
     (if name a = n then a\<lparr>name := n, agent_hostname := h, last_seen := t\<rparr> # as
      else a # upsert_agent n h t as)"

text \<open>\<^verbatim>\<open>receive_metrics\<close>: the snapshot is stored, the agent registered or updated,
  and \<^verbatim>\<open>check_thresholds\<close> runs as a background task after the response; an exception
  of the task is logged by the framework and changes nothing else.\<close>

definition receive_metrics ::
  "env \<Rightarrow> time \<Rightarrow> string \<Rightarrow> MetricsData \<Rightarrow> server \<Rightarrow> error + server" where
  "receive_metrics env now x_api_key m st =
     (case verify_api_key env x_api_key of
        Inl e \<Rightarrow> Inl e
      | Inr key \<Rightarrow>
          (let st1 = st\<lparr>metrics_collection := metrics_collection st @ [m]\<rparr>;
               st2 = st1\<lparr>agents_collection :=
                           upsert_agent (agent_name m) (hostname m) now (agents_collection st1)\<rparr>
           in Inr (case check_thresholds env now m st2 of
                     Inl e \<Rightarrow> st2
                   | Inr res \<Rightarrow> snd res)))"

text \<open>\<^verbatim>\<open>alerts_collection.update_one({"_id": q}, {"$set": {"acknowledged": True}})\<close>:
  the first document whose id equals the query value is updated; the result counts the
  documents matched and the documents the update changed.\<close>

fun ack_update_one :: "bson_id \<Rightarrow> alert_doc list \<Rightarrow> alert_doc list \<times> nat \<times> nat" where
  "ack_update_one q [] = ([], 0, 0)"
| "ack_update_one q (d # ds) =
     (if alert_id d = q
      then (d\<lparr>acknowledged := True\<rparr> # ds, 1, if acknowledged d then 0 else 1)
      else (case ack_update_one q ds of
              (ds', matched_count, modified_count) \<Rightarrow> (d # ds', matched_count, modified_count)))"

text \<open>\<^verbatim>\<open>acknowledge_alert\<close>: the path parameter is a \<^verbatim>\<open>str\<close> and is used as the query
  value as it is; the test is on \<^verbatim>\<open>modified_count\<close>.\<close>

definition acknowledge_alert :: "env \<Rightarrow> string \<Rightarrow> string \<Rightarrow> server \<Rightarrow> error + server" where
  "acknowledge_alert env x_api_key aid st =
     (case verify_api_key env x_api_key of
        Inl e \<Rightarrow> Inl e
      | Inr key \<Rightarrow>
          (case ack_update_one (IdStr aid) (alerts_collection st) of
             (docs, matched_count, modified_count) \<Rightarrow>
               if modified_count = 0 then Inl (HTTPException 404 ''Alert not found'')
               else Inr (st\<lparr>alerts_collection := docs\<rparr>)))"

text \<open>\<^verbatim>\<open>config.dict()\<close>.\<close>

definition AlertConfig_dict :: "AlertConfig \<Rightarrow> (string \<times> pyval) list" where
  "AlertConfig_dict cfg =
     [(''cpu_threshold'', VFloat (cpu_threshold cfg)),
      (''ram_threshold'', VFloat (ram_threshold cfg)),
      (''disk_threshold'', VFloat (disk_threshold cfg)),
      (''service_alerts'', VBool (service_alerts cfg)),
      (''ssh_brute_force_alerts'', VBool (ssh_brute_force_alerts cfg))]"

fun config_update_one ::
  "string \<Rightarrow> (string \<times> pyval) list \<Rightarrow> agent_doc list \<Rightarrow> agent_doc list \<times> nat" where
  "config_update_one n d [] = ([], 0)"
| "config_update_one n d (a # as) =
     (if name a = n then (a\<lparr>alert_config := Some d\<rparr> # as, 1)
      else (case config_update_one n d as of
              (as', matched_count) \<Rightarrow> (a # as', matched_count)))"

text \<open>\<^verbatim>\<open>update_agent_config\<close>: here the test is on \<^verbatim>\<open>matched_count\<close>.\<close>

definition update_agent_config ::
  "env \<Rightarrow> string \<Rightarrow> string \<Rightarrow> AlertConfig \<Rightarrow> server \<Rightarrow> error + server" where
  "update_agent_config env x_api_key agent config st =
     (case verify_api_key env x_api_key of
        Inl e \<Rightarrow> Inl e
      | Inr key \<Rightarrow>
          (case config_update_one agent (AlertConfig_dict config) (agents_collection st) of
             (docs, matched_count) \<Rightarrow>
               if matched_count = 0 then Inl (HTTPException 404 ''Agent not found'')
               else Inr (st\<lparr>agents_collection := docs\<rparr>)))"

section \<open>The periodic task\<close>

text \<open>Redis: \<^verbatim>\<open>SET key value EX n\<close>, served at time \<open>t\<close>, stores the value with the
  expiry time \<open>t + n\<close>, replacing what was there; \<^verbatim>\<open>GET\<close>, served at time \<open>t\<close>, answers
  the value of a key that is set, as long as \<open>t\<close> has not passed its expiry time (the key
  is still answered at the expiry time itself).\<close>

definition redis_get :: "time \<Rightarrow> redis_db \<Rightarrow> string \<Rightarrow> string option" where
  "redis_get t db k =
     (case db k of
        None \<Rightarrow> None
      | Some (v, None) \<Rightarrow> Some v
      | Some (v, Some expires_at) \<Rightarrow> if t > expires_at then None else Some v)"

definition redis_set :: "time \<Rightarrow> redis_db \<Rightarrow> string \<Rightarrow> string \<Rightarrow> real \<Rightarrow> redis_db" where
  "redis_set t db k v ex = db(k \<mapsto> (v, Some (t + ex)))"

text \<open>Python's \<^verbatim>\<open>not x\<close> for the answer of \<^verbatim>\<open>redis_client.get\<close>: \<^verbatim>\<open>None\<close> or an
  empty byte string.\<close>

definition py_not_bytes :: "string option \<Rightarrow> bool" where
  "py_not_bytes r = (case r of None \<Rightarrow> True | Some v \<Rightarrow> v = [])"

definition alert_key_of :: "agent_doc \<Rightarrow> string" where
  "alert_key_of agent = ''agent_inactive:'' @ name agent"

definition inactive_message :: string where
  "inactive_message = ''Agent has not reported in over 10 minutes''"

text \<open>The loop of \<^verbatim>\<open>check_agent_status\<close> over the inactive agents.\<close>

fun inactive_loop :: "env \<Rightarrow> time \<Rightarrow> agent_doc list \<Rightarrow> server \<Rightarrow> server" where
  "inactive_loop env now [] st = st"
| "inactive_loop env now (agent # rest) st =
     (let alert_key = alert_key_of agent
      in if py_not_bytes (redis_get (redis_time_get env now alert_key) (redis st) alert_key)
         then (let st1 = snd (send_alert env now ''AGENT_INACTIVE'' (name agent)
                                (agent_hostname agent) inactive_message st);
                   st2 = st1\<lparr>redis := redis_set (redis_time_set env now alert_key)
                                           (redis st1) alert_key ''1'' 3600\<rparr>
               in inactive_loop env now rest st2)
         else inactive_loop env now rest st)"

text \<open>The query \<^verbatim>\<open>{"last_seen": {"$lt": threshold}}\<close> with the threshold ten minutes
  before now.\<close>

definition inactive_agents :: "time \<Rightarrow> server \<Rightarrow> agent_doc list" where
  "inactive_agents now st =
     (let threshold = now - 10 * 60
      in filter (\<lambda>a. last_seen a < threshold) (agents_collection st))"

definition check_agent_status :: "env \<Rightarrow> time \<Rightarrow> server \<Rightarrow> server" where
  "check_agent_status env now st = inactive_loop env now (inactive_agents now st) st"

section \<open>Observations\<close>

text \<open>What the theorems look at: of a stored alert its agent, type and message, of an
  entry of \<^verbatim>\<open>alerts_sent\<close> its type, path and service (the ids depend on the state of
  the collection only).\<close>

definition alert_view :: "alert_doc \<Rightarrow> string \<times> string \<times> string" where
  "alert_view a = (alert_agent_name a, alert_type a, message a)"

definition sent_view :: "sent_alert \<Rightarrow> string \<times> string option \<times> string option" where
  "sent_view s = (sent_type s, sent_path s, sent_service s)"

definition sent_views :: "acc \<Rightarrow> (string \<times> string option \<times> string option) list" where
  "sent_views acc = map sent_view (fst acc)"

definition alert_views :: "server \<Rightarrow> (string \<times> string \<times> string) list" where
  "alert_views st = map alert_view (alerts_collection st)"

text \<open>The alerts stored between a state and a later one, and the alert types a run of
  the checks has stored or listed.\<close>

definition new_alert_views :: "server \<Rightarrow> server \<Rightarrow> (string \<times> string \<times> string) list" where
  "new_alert_views st st' = drop (length (alerts_collection st)) (alert_views st')"

definition fired_types :: "server \<Rightarrow> acc \<Rightarrow> string set" where
  "fired_types st r =
     set (map fst (sent_views r)) \<union> set (map (\<lambda>v. fst (snd v)) (new_alert_views st (snd r)))"

definition count_alerts :: "string \<Rightarrow> string \<Rightarrow> server \<Rightarrow> nat" where
  "count_alerts agent ty st =
     length (filter (\<lambda>v. fst v = agent \<and> fst (snd v) = ty) (alert_views st))"

text \<open>The document that \<^verbatim>\<open>send_alert\<close> inserts in a given state.\<close>

definition new_doc :: "server \<Rightarrow> time \<Rightarrow> string \<Rightarrow> string \<Rightarrow> string \<Rightarrow> string \<Rightarrow> alert_doc" where
  "new_doc st now ty agent host msg =
     \<lparr>alert_id = ObjectId (next_oid st), alert_agent_name = agent, alert_hostname = host,
      alert_type = ty, message = msg, alert_timestamp = now, acknowledged = False\<rparr>"

text \<open>Channels: the switch of a channel, the channel a journal entry is a send on, and
  the entry a channel function writes for its result.\<close>

definition enabled :: "env \<Rightarrow> channel \<Rightarrow> bool" where
  "enabled env c =
     (case c of Email \<Rightarrow> ALERT_EMAIL_ENABLED env
      | Telegram \<Rightarrow> ALERT_TELEGRAM_ENABLED env
      | Discord \<Rightarrow> ALERT_DISCORD_ENABLED env)"

fun attempted :: "event \<Rightarrow> channel option" where
  "attempted (AlertStored i) = None"
| "attempted (ChannelSent c) = Some c"
| "attempted (ChannelFailed c) = Some c"
| "attempted (ChannelDisabled c) = None"

definition outcome_event :: "channel \<Rightarrow> bool \<Rightarrow> event" where
  "outcome_event c ok = (if ok then ChannelSent c else ChannelFailed c)"

text \<open>The \<^verbatim>\<open>alert_config\<close> stored for an agent, if there is one.\<close>

definition stored_config :: "server \<Rightarrow> string \<Rightarrow> (string \<times> pyval) list option" where
  "stored_config st agent =
     (case find (\<lambda>a. name a = agent) (agents_collection st) of
        None \<Rightarrow> None
      | Some a \<Rightarrow> alert_config a)"

text \<open>A series of requests to \<^verbatim>\<open>/data\<close>, each with its time; a refused request leaves
  the state as it is.\<close>

fun submissions :: "env \<Rightarrow> string \<Rightarrow> (time \<times> MetricsData) list \<Rightarrow> server \<Rightarrow> server" where
  "submissions env key [] st = st"
| "submissions env key (tm # rest) st =
     (case receive_metrics env (fst tm) key (snd tm) st of
        Inl e \<Rightarrow> submissions env key rest st
      | Inr st' \<Rightarrow> submissions env key rest st')"

text \<open>For the periodic task: the alert stored for an inactive agent, the test of the
  loop on the agent's key, and the two statements of the loop body behind that test.\<close>

definition inactive_view :: "agent_doc \<Rightarrow> string \<times> string \<times> string" where
  "inactive_view a = (name a, ''AGENT_INACTIVE'', inactive_message)"

definition flag_absent :: "env \<Rightarrow> time \<Rightarrow> server \<Rightarrow> agent_doc \<Rightarrow> bool" where
  "flag_absent env now st a =
     py_not_bytes (redis_get (redis_time_get env now (alert_key_of a)) (redis st) (alert_key_of a))"

definition alert_inactive :: "env \<Rightarrow> time \<Rightarrow> agent_doc \<Rightarrow> server \<Rightarrow> server" where
  "alert_inactive env now agent st =
     (let st1 = snd (send_alert env now ''AGENT_INACTIVE'' (name agent)
                       (agent_hostname agent) inactive_message st)
      in st1\<lparr>redis := redis_set (redis_time_set env now (alert_key_of agent)) (redis st1)
                         (alert_key_of agent) ''1'' 3600\<rparr>)"

subsection \<open>The alerts a snapshot calls for\<close>

text \<open>The conditions of the five checks once more, as lists of type, message, path and
  service, without the sending. The lemmas on \<open>run_checks\<close> below show that the checks
  store and list exactly these, in this order; the theorems are stated on
  \<open>run_checks\<close> itself.\<close>

type_synonym candidate = "string \<times> string \<times> string option \<times> string option"

definition sent_of_cand :: "candidate \<Rightarrow> string \<times> string option \<times> string option" where
  "sent_of_cand c = (case c of (ty, msg, path, svc) \<Rightarrow> (ty, path, svc))"

definition alert_of_cand :: "MetricsData \<Rightarrow> candidate \<Rightarrow> string \<times> string \<times> string" where
  "alert_of_cand m c = (case c of (ty, msg, path, svc) \<Rightarrow> (agent_name m, ty, msg))"

definition cpu_cands :: "env \<Rightarrow> MetricsData \<Rightarrow> AlertConfig \<Rightarrow> candidate list" where
  "cpu_cands env m cfg =
     (case cpu_usage m of
        None \<Rightarrow> []
      | Some c \<Rightarrow> if c > cpu_threshold cfg
                  then [(''CPU_HIGH'', cpu_message env c cfg, None, None)] else [])"

definition ram_cands :: "env \<Rightarrow> MetricsData \<Rightarrow> AlertConfig \<Rightarrow> candidate list" where
  "ram_cands env m cfg =
     (case ram_usage m of
        None \<Rightarrow> []
      | Some r \<Rightarrow> if r > ram_threshold cfg
                  then [(''RAM_HIGH'', ram_message env r cfg, None, None)] else [])"

definition disk_cand :: "env \<Rightarrow> AlertConfig \<Rightarrow> string \<times> real \<Rightarrow> candidate" where
  "disk_cand env cfg pu =
     (''DISK_HIGH'', disk_message env (fst pu) (snd pu) cfg, Some (fst pu), None)"

definition disk_cands :: "env \<Rightarrow> MetricsData \<Rightarrow> AlertConfig \<Rightarrow> candidate list" where
  "disk_cands env m cfg =
     (case disk_usage m of
        None \<Rightarrow> []
      | Some items \<Rightarrow>
          map (disk_cand env cfg) (filter (\<lambda>pu. snd pu > disk_threshold cfg) items))"

definition service_cand :: "string \<times> string \<Rightarrow> candidate" where
  "service_cand ss =
     (''SERVICE_DOWN'', service_message (fst ss) (snd ss), None, Some (fst ss))"

definition service_cands :: "MetricsData \<Rightarrow> AlertConfig \<Rightarrow> candidate list" where
  "service_cands m cfg =
     (if service_alerts cfg
      then (case services m of
              None \<Rightarrow> []
            | Some items \<Rightarrow> map service_cand (filter (\<lambda>ss. snd ss \<noteq> ''active'') items))
      else [])"

definition ssh_cands :: "env \<Rightarrow> MetricsData \<Rightarrow> AlertConfig \<Rightarrow> candidate list" where
  "ssh_cands env m cfg =
     (if ssh_brute_force_alerts cfg
      then (case ssh_brute_force m of
              None \<Rightarrow> []
            | Some d \<Rightarrow>
                if py_truthy (dict_get d ''threshold_exceeded'' (VBool False))
                then [(''SSH_BRUTE_FORCE'',
                       ssh_message env (dict_get d ''failed_attempts'' (VInt 0)), None, None)]
                else [])
      else [])"

definition candidates :: "env \<Rightarrow> MetricsData \<Rightarrow> AlertConfig \<Rightarrow> candidate list" where
  "candidates env m cfg =
     cpu_cands env m cfg @ ram_cands env m cfg @ disk_cands env m cfg
     @ service_cands m cfg @ ssh_cands env m cfg"

subsection \<open>Example values\<close>

text \<open>A server with empty collections and an empty Redis.\<close>

definition st0 :: server where
  "st0 = \<lparr>metrics_collection = [], alerts_collection = [], agents_collection = [],
          redis = Map.empty, next_oid = 0, journal = []\<rparr>"

text \<open>An environment with the three channels switched on and delivering, one API
  key, validators that take numbers for a \<^verbatim>\<open>float\<close> field and booleans for a \<^verbatim>\<open>bool\<close>
  field and refuse \<^verbatim>\<open>None\<close> and the rest, a rendering of floats and times by their
  integer part, and a Redis server that serves the \<^verbatim>\<open>GET\<close> at the time the task read
  its clock and the \<^verbatim>\<open>SET\<close> one second later. In the second environment every send
  raises.\<close>

definition env_up :: env where
  "env_up =
     \<lparr>ALERT_EMAIL_ENABLED = True, ALERT_TELEGRAM_ENABLED = True, ALERT_DISCORD_ENABLED = True,
      API_KEYS = [''k1''],
      fmt_float = (\<lambda>r. str_int \<lfloor>r\<rfloor>),
      fmt_container = (\<lambda>v. ''[...]''),
      isoformat = (\<lambda>t. str_int \<lfloor>t\<rfloor>),
      validate_float = (\<lambda>v. case v of VFloat r \<Rightarrow> Some r | VInt i \<Rightarrow> Some (of_int i)
                                | _ \<Rightarrow> None),
      validate_bool = (\<lambda>v. case v of VBool b \<Rightarrow> Some b | _ \<Rightarrow> None),
      transport = (\<lambda>req k. case req of SmtpMessage s b \<Rightarrow> Returned 250
                                     | TelegramPost b \<Rightarrow> Returned 200
                                     | DiscordPost b \<Rightarrow> Returned 204),
      redis_time_get = (\<lambda>now k. now),
      redis_time_set = (\<lambda>now k. now + 1)\<rparr>"

definition env_down :: env where
  "env_down = env_up\<lparr>transport := (\<lambda>req k. Raised)\<rparr>"

text \<open>A snapshot of the agent \<^verbatim>\<open>web1\<close> with every metric absent; the examples set the
  fields they need.\<close>

definition snapshot :: MetricsData where
  "snapshot =
     \<lparr>cpu_usage = None, ram_usage = None, disk_usage = None, network = None,
      services = None, ssh_brute_force = None, timestamp = ''2024-01-01T00:00:00'',
      agent_name = ''web1'', hostname = ''host1''\<rparr>"

text \<open>Servers that know the agent \<^verbatim>\<open>web1\<close>: with a stored \<^verbatim>\<open>cpu_threshold\<close> of null,
  and with a stored \<^verbatim>\<open>cpu_threshold\<close> of 50.\<close>

definition st_bad :: server where
  "st_bad = st0\<lparr>agents_collection :=
      [\<lparr>name = ''web1'', agent_hostname = ''host1'', last_seen = 0,
        alert_config = Some [(''cpu_threshold'', VNone)]\<rparr>]\<rparr>"

definition st_tuned :: server where
  "st_tuned = st0\<lparr>agents_collection :=
      [\<lparr>name = ''web1'', agent_hostname = ''host1'', last_seen = 0,
        alert_config = Some [(''cpu_threshold'', VFloat 50)]\<rparr>]\<rparr>"

text \<open>A server with one alert whose id is the string \<^verbatim>\<open>a1\<close>, already acknowledged.\<close>

definition st_acked :: server where
  "st_acked = st0\<lparr>alerts_collection :=
      [\<lparr>alert_id = IdStr ''a1'', alert_agent_name = ''web1'', alert_hostname = ''host1'',
        alert_type = ''CPU_HIGH'', message = ''high'', alert_timestamp = 0,
        acknowledged = True\<rparr>]\<rparr>"

text \<open>Two agents, for a sweep at time 1000: one last seen 601 seconds before, one 599
  seconds before; a server whose Redis holds the flag of the first until 3600, and one
  whose Redis holds an empty value under that key until 3600.\<close>

definition agent_web1 :: agent_doc where
  "agent_web1 = \<lparr>name = ''web1'', agent_hostname = ''host1'', last_seen = 399,
                  alert_config = None\<rparr>"

definition agent_web2 :: agent_doc where
  "agent_web2 = \<lparr>name = ''web2'', agent_hostname = ''host2'', last_seen = 401,
                  alert_config = None\<rparr>"

definition st_flagged :: server where
  "st_flagged = st0\<lparr>redis := [alert_key_of agent_web1 \<mapsto> (''1'', Some 3600)]\<rparr>"

definition st_empty_flag :: server where
  "st_empty_flag = st0\<lparr>redis := [alert_key_of agent_web1 \<mapsto> ([], Some 3600)]\<rparr>"

section \<open>Effects of sending an alert\<close>

lemma attempted_outcome_event [simp]: "attempted (outcome_event c ok) = Some c"
  by (simp add: outcome_event_def)

lemma send_email_alert_journal:
  "ALERT_EMAIL_ENABLED env \<Longrightarrow>
   snd (send_email_alert env subject msg st) =
     st\<lparr>journal := journal st @
          [outcome_event Email (fst (send_email_alert env subject msg st))]\<rparr>"
  by (simp add: send_email_alert_def log_event_def outcome_event_def split: io_result.splits)

lemma send_telegram_alert_journal:
  "ALERT_TELEGRAM_ENABLED env \<Longrightarrow>
   snd (send_telegram_alert env msg st) =
     st\<lparr>journal := journal st @
          [outcome_event Telegram (fst (send_telegram_alert env msg st))]\<rparr>"
  by (simp add: send_telegram_alert_def log_event_def outcome_event_def split: io_result.splits)

lemma send_discord_alert_journal:
  "ALERT_DISCORD_ENABLED env \<Longrightarrow>
   snd (send_discord_alert env msg st) =
     st\<lparr>journal := journal st @
          [outcome_event Discord (fst (send_discord_alert env msg st))]\<rparr>"
  by (simp add: send_discord_alert_def log_event_def outcome_event_def split: io_result.splits)

lemma send_email_alert_effect:
  "ALERT_EMAIL_ENABLED env \<Longrightarrow>
   \<exists>e. attempted e = Some Email \<and>
       snd (send_email_alert env subject msg st) = st\<lparr>journal := journal st @ [e]\<rparr>"
  using send_email_alert_journal attempted_outcome_event by blast

lemma send_telegram_alert_effect:
  "ALERT_TELEGRAM_ENABLED env \<Longrightarrow>
   \<exists>e. attempted e = Some Telegram \<and>
       snd (send_telegram_alert env msg st) = st\<lparr>journal := journal st @ [e]\<rparr>"
  using send_telegram_alert_journal attempted_outcome_event by blast

lemma send_discord_alert_effect:
  "ALERT_DISCORD_ENABLED env \<Longrightarrow>
   \<exists>e. attempted e = Some Discord \<and>
       snd (send_discord_alert env msg st) = st\<lparr>journal := journal st @ [e]\<rparr>"
  using send_discord_alert_journal attempted_outcome_event by blast

lemma send_alert_effect:
  "\<exists>evs. map attempted evs = map Some (filter (enabled env) [Email, Telegram, Discord]) \<and>
     send_alert env now ty agent host msg st =
       (str_ObjectId (next_oid st),
        st\<lparr>alerts_collection := alerts_collection st @ [new_doc st now ty agent host msg],
           next_oid := Suc (next_oid st),
           journal := journal st @ AlertStored (ObjectId (next_oid st)) # evs\<rparr>)"
proof -
  define st1 where "st1 = snd (insert_alert agent host ty msg now st)"
  define am where "am = format_alert_message env ty agent host now msg"
  define st2 where "st2 = (if ALERT_EMAIL_ENABLED env
                 then snd (send_email_alert env
                             (''Sentora Alert: '' @ ty @ '' on '' @ host) am st1)
                 else st1)"
  define st3 where "st3 = (if ALERT_TELEGRAM_ENABLED env
                 then snd (send_telegram_alert env am st2) else st2)"
  define st4 where "st4 = (if ALERT_DISCORD_ENABLED env
                 then snd (send_discord_alert env am st3) else st3)"
  have r: "send_alert env now ty agent host msg st = (str_ObjectId (next_oid st), st4)"
    by (simp add: send_alert_def insert_alert_def Let_def st4_def st3_def st2_def st1_def am_def)
  have s1: "st1 = st\<lparr>alerts_collection := alerts_collection st @ [new_doc st now ty agent host msg],
           next_oid := Suc (next_oid st),
           journal := journal st @ [AlertStored (ObjectId (next_oid st))]\<rparr>"
    by (simp add: st1_def insert_alert_def Let_def new_doc_def)
  obtain e1 where e1: "map attempted e1 = map Some (filter (enabled env) [Email])"
      "st2 = st1\<lparr>journal := journal st1 @ e1\<rparr>"
  proof (cases "ALERT_EMAIL_ENABLED env")
    case True
    from send_email_alert_effect [OF True] obtain e where
      "attempted e = Some Email" "st2 = st1\<lparr>journal := journal st1 @ [e]\<rparr>"
      unfolding st2_def using True by fastforce
    then show ?thesis using that [of "[e]"] True by (simp add: enabled_def)
  next
    case False
    then show ?thesis using that [of "[]"] by (simp add: enabled_def st2_def)
  qed
  obtain e2 where e2: "map attempted e2 = map Some (filter (enabled env) [Telegram])"
      "st3 = st2\<lparr>journal := journal st2 @ e2\<rparr>"
  proof (cases "ALERT_TELEGRAM_ENABLED env")
    case True
    from send_telegram_alert_effect [OF True] obtain e where
      "attempted e = Some Telegram" "st3 = st2\<lparr>journal := journal st2 @ [e]\<rparr>"
      unfolding st3_def using True by fastforce
    then show ?thesis using that [of "[e]"] True by (simp add: enabled_def)
  next
    case False
    then show ?thesis using that [of "[]"] by (simp add: enabled_def st3_def)
  qed
  obtain e3 where e3: "map attempted e3 = map Some (filter (enabled env) [Discord])"
      "st4 = st3\<lparr>journal := journal st3 @ e3\<rparr>"
  proof (cases "ALERT_DISCORD_ENABLED env")
    case True
    from send_discord_alert_effect [OF True] obtain e where
      "attempted e = Some Discord" "st4 = st3\<lparr>journal := journal st3 @ [e]\<rparr>"
      unfolding st4_def using True by fastforce
    then show ?thesis using that [of "[e]"] True by (simp add: enabled_def)
  next
    case False
    then show ?thesis using that [of "[]"] by (simp add: enabled_def st4_def)
  qed
  have m: "map attempted (e1 @ e2 @ e3) = map Some (filter (enabled env) [Email, Telegram, Discord])"
    using e1(1) e2(1) e3(1) by simp
  have "st4 = st\<lparr>alerts_collection := alerts_collection st @ [new_doc st now ty agent host msg],
           next_oid := Suc (next_oid st),
           journal := journal st @ AlertStored (ObjectId (next_oid st)) # (e1 @ e2 @ e3)\<rparr>"
    by (simp add: e3(2) e2(2) e1(2) s1)
  with r m show ?thesis by blast
qed

lemma send_alert_fst: "fst (send_alert env now ty agent host msg st) = str_ObjectId (next_oid st)"
  using send_alert_effect [of env now ty agent host msg st] by auto

lemma send_alert_alerts:
  "alerts_collection (snd (send_alert env now ty agent host msg st)) =
     alerts_collection st @ [new_doc st now ty agent host msg]"
  using send_alert_effect [of env now ty agent host msg st] by auto

lemma send_alert_agents:
  "agents_collection (snd (send_alert env now ty agent host msg st)) = agents_collection st"
  using send_alert_effect [of env now ty agent host msg st] by auto

lemma send_alert_redis: "redis (snd (send_alert env now ty agent host msg st)) = redis st"
  using send_alert_effect [of env now ty agent host msg st] by auto

lemma send_alert_views:
  "alert_views (snd (send_alert env now ty agent host msg st)) =
     alert_views st @ [(agent, ty, msg)]"
  by (simp add: alert_views_def send_alert_alerts alert_view_def new_doc_def)

section \<open>The threshold checks\<close>

lemma send_and_record_sent:
  "sent_views (send_and_record env now m ty msg path svc acc) =
     sent_views acc @ [(ty, path, svc)]"
  by (simp add: send_and_record_def sent_views_def sent_view_def split: prod.splits)

lemma send_and_record_alerts:
  "alert_views (snd (send_and_record env now m ty msg path svc acc)) =
     alert_views (snd acc) @ [(agent_name m, ty, msg)]"
proof -
  have "snd (send_and_record env now m ty msg path svc acc) =
          snd (send_alert env now ty (agent_name m) (hostname m) msg (snd acc))"
    by (simp add: send_and_record_def split: prod.splits)
  then show ?thesis by (simp add: send_alert_views)
qed

lemma check_cpu_sent:
  "sent_views (check_cpu env now m cfg acc) =
     sent_views acc @ map sent_of_cand (cpu_cands env m cfg)"
  by (simp add: check_cpu_def cpu_cands_def send_and_record_sent sent_of_cand_def
        split: option.splits)

lemma check_cpu_alerts:
  "alert_views (snd (check_cpu env now m cfg acc)) =
     alert_views (snd acc) @ map (alert_of_cand m) (cpu_cands env m cfg)"
  by (simp add: check_cpu_def cpu_cands_def send_and_record_alerts alert_of_cand_def
        split: option.splits)

lemma check_ram_sent:
  "sent_views (check_ram env now m cfg acc) =
     sent_views acc @ map sent_of_cand (ram_cands env m cfg)"
  by (simp add: check_ram_def ram_cands_def send_and_record_sent sent_of_cand_def
        split: option.splits)

lemma check_ram_alerts:
  "alert_views (snd (check_ram env now m cfg acc)) =
     alert_views (snd acc) @ map (alert_of_cand m) (ram_cands env m cfg)"
  by (simp add: check_ram_def ram_cands_def send_and_record_alerts alert_of_cand_def
        split: option.splits)

lemma disk_loop_sent:
  "sent_views (disk_loop env now m cfg items acc) =
     sent_views acc @
     map sent_of_cand (map (disk_cand env cfg) (filter (\<lambda>pu. snd pu > disk_threshold cfg) items))"
proof (induction items arbitrary: acc)
  case Nil
  show ?case by simp
next
  case (Cons pu items)
  obtain path usage where pu: "pu = (path, usage)" by (cases pu)
  show ?case
    by (simp add: pu Cons.IH send_and_record_sent sent_of_cand_def disk_cand_def)
qed

lemma disk_loop_alerts:
  "alert_views (snd (disk_loop env now m cfg items acc)) =
     alert_views (snd acc) @
     map (alert_of_cand m)
       (map (disk_cand env cfg) (filter (\<lambda>pu. snd pu > disk_threshold cfg) items))"
proof (induction items arbitrary: acc)
  case Nil
  show ?case by simp
next
  case (Cons pu items)
  obtain path usage where pu: "pu = (path, usage)" by (cases pu)
  show ?case
    by (simp add: pu Cons.IH send_and_record_alerts alert_of_cand_def disk_cand_def)
qed

lemma check_disk_sent:
  "sent_views (check_disk env now m cfg acc) =
     sent_views acc @ map sent_of_cand (disk_cands env m cfg)"
  by (simp add: check_disk_def disk_cands_def disk_loop_sent split: option.splits)

lemma check_disk_alerts:
  "alert_views (snd (check_disk env now m cfg acc)) =
     alert_views (snd acc) @ map (alert_of_cand m) (disk_cands env m cfg)"
  by (simp add: check_disk_def disk_cands_def disk_loop_alerts split: option.splits)

lemma service_loop_sent:
  "sent_views (service_loop env now m items acc) =
     sent_views acc @
     map sent_of_cand (map service_cand (filter (\<lambda>ss. snd ss \<noteq> ''active'') items))"
proof (induction items arbitrary: acc)
  case Nil
  show ?case by simp
next
  case (Cons ss items)
  obtain service status where ss: "ss = (service, status)" by (cases ss)
  show ?case
    by (simp add: ss Cons.IH send_and_record_sent sent_of_cand_def service_cand_def)
qed

lemma service_loop_alerts:
  "alert_views (snd (service_loop env now m items acc)) =
     alert_views (snd acc) @
     map (alert_of_cand m) (map service_cand (filter (\<lambda>ss. snd ss \<noteq> ''active'') items))"
proof (induction items arbitrary: acc)
  case Nil
  show ?case by simp
next
  case (Cons ss items)
  obtain service status where ss: "ss = (service, status)" by (cases ss)
  show ?case
    by (simp add: ss Cons.IH send_and_record_alerts alert_of_cand_def service_cand_def)
qed

lemma check_services_sent:
  "sent_views (check_services env now m cfg acc) =
     sent_views acc @ map sent_of_cand (service_cands m cfg)"
  by (simp add: check_services_def service_cands_def service_loop_sent split: option.splits)

lemma check_services_alerts:
  "alert_views (snd (check_services env now m cfg acc)) =
     alert_views (snd acc) @ map (alert_of_cand m) (service_cands m cfg)"
  by (simp add: check_services_def service_cands_def service_loop_alerts split: option.splits)

lemma check_ssh_sent:
  "sent_views (check_ssh env now m cfg acc) =
     sent_views acc @ map sent_of_cand (ssh_cands env m cfg)"
  by (simp add: check_ssh_def ssh_cands_def send_and_record_sent sent_of_cand_def Let_def
        split: option.splits)

lemma check_ssh_alerts:
  "alert_views (snd (check_ssh env now m cfg acc)) =
     alert_views (snd acc) @ map (alert_of_cand m) (ssh_cands env m cfg)"
  by (simp add: check_ssh_def ssh_cands_def send_and_record_alerts alert_of_cand_def Let_def
        split: option.splits)

lemma run_checks_sent:
  "sent_views (run_checks env now m cfg st) = map sent_of_cand (candidates env m cfg)"
proof -
  have "sent_views ([], st) = []" by (simp add: sent_views_def)
  then show ?thesis
    by (simp add: run_checks_def candidates_def check_ssh_sent check_services_sent
          check_disk_sent check_ram_sent check_cpu_sent)
qed

lemma run_checks_alerts:
  "alert_views (snd (run_checks env now m cfg st)) =
     alert_views st @ map (alert_of_cand m) (candidates env m cfg)"
  by (simp add: run_checks_def candidates_def check_ssh_alerts check_services_alerts
        check_disk_alerts check_ram_alerts check_cpu_alerts)

lemma length_alert_views [simp]: "length (alert_views st) = length (alerts_collection st)"
  by (simp add: alert_views_def)

lemma run_checks_new:
  "new_alert_views st (snd (run_checks env now m cfg st)) =
     map (alert_of_cand m) (candidates env m cfg)"
  by (simp add: new_alert_views_def run_checks_alerts)

lemma fst_sent_of_cand [simp]: "fst (sent_of_cand c) = fst c"
  by (simp add: sent_of_cand_def split: prod.splits)

lemma type_alert_of_cand [simp]: "fst (snd (alert_of_cand m c)) = fst c"
  by (simp add: alert_of_cand_def split: prod.splits)

lemma run_checks_fired_types:
  "fired_types st (run_checks env now m cfg st) = fst ` set (candidates env m cfg)"
  by (auto simp: fired_types_def run_checks_new run_checks_sent image_iff)

lemma cpu_cands_type: "fst ` set (cpu_cands env m cfg) \<subseteq> {''CPU_HIGH''}"
  by (auto simp: cpu_cands_def split: option.splits if_splits)

lemma ram_cands_type: "fst ` set (ram_cands env m cfg) \<subseteq> {''RAM_HIGH''}"
  by (auto simp: ram_cands_def split: option.splits if_splits)

lemma disk_cands_type: "fst ` set (disk_cands env m cfg) \<subseteq> {''DISK_HIGH''}"
  by (auto simp: disk_cands_def disk_cand_def split: option.splits)

lemma service_cands_type: "fst ` set (service_cands m cfg) \<subseteq> {''SERVICE_DOWN''}"
proof (cases "service_alerts cfg")
  case True
  then show ?thesis
    unfolding service_cands_def
    by (cases "services m") (simp_all add: service_cand_def image_subset_iff)
next
  case False
  then show ?thesis unfolding service_cands_def by simp
qed

lemma ssh_cands_type: "fst ` set (ssh_cands env m cfg) \<subseteq> {''SSH_BRUTE_FORCE''}"
proof (cases "ssh_brute_force_alerts cfg")
  case True
  then show ?thesis
    unfolding ssh_cands_def
    by (cases "ssh_brute_force m") auto
next
  case False
  then show ?thesis unfolding ssh_cands_def by simp
qed

lemma candidates_types:
  "fst ` set (candidates env m cfg) =
     fst ` set (cpu_cands env m cfg) \<union> fst ` set (ram_cands env m cfg)
     \<union> fst ` set (disk_cands env m cfg) \<union> fst ` set (service_cands m cfg)
     \<union> fst ` set (ssh_cands env m cfg)"
  by (simp add: candidates_def image_Un Un_assoc)

subsection \<open>Absent fields\<close>

text \<open>
  Claim C2. For every snapshot, every policy and every state of the server: when a
  metric field of the snapshot is absent (\<open>None\<close>), the checks of \<^verbatim>\<open>check_thresholds\<close>
  neither store an alert of the type of that field nor list it in \<^verbatim>\<open>alerts_sent\<close>:
  no \<^verbatim>\<open>CPU_HIGH\<close> without \<^verbatim>\<open>cpu_usage\<close>, no \<^verbatim>\<open>RAM_HIGH\<close> without \<^verbatim>\<open>ram_usage\<close>,
  no \<^verbatim>\<open>DISK_HIGH\<close> without \<^verbatim>\<open>disk_usage\<close>, no \<^verbatim>\<open>SERVICE_DOWN\<close> without
  \<^verbatim>\<open>services\<close>, no \<^verbatim>\<open>SSH_BRUTE_FORCE\<close> without \<^verbatim>\<open>ssh_brute_force\<close>.
\<close>

theorem absent_field_never_alerts:
  "(cpu_usage m = None \<longrightarrow> ''CPU_HIGH'' \<notin> fired_types st (run_checks env now m cfg st)) \<and>
   (ram_usage m = None \<longrightarrow> ''RAM_HIGH'' \<notin> fired_types st (run_checks env now m cfg st)) \<and>
   (disk_usage m = None \<longrightarrow> ''DISK_HIGH'' \<notin> fired_types st (run_checks env now m cfg st)) \<and>
   (services m = None \<longrightarrow>
      ''SERVICE_DOWN'' \<notin> fired_types st (run_checks env now m cfg st)) \<and>
   (ssh_brute_force m = None \<longrightarrow>
      ''SSH_BRUTE_FORCE'' \<notin> fired_types st (run_checks env now m cfg st))"
proof -
  note ty = cpu_cands_type [of env m cfg] ram_cands_type [of env m cfg]
    disk_cands_type [of env m cfg] service_cands_type [of m cfg] ssh_cands_type [of env m cfg]
  have cpu: "''CPU_HIGH'' \<notin> fired_types st (run_checks env now m cfg st)"
    if "cpu_usage m = None"
  proof -
    have "cpu_cands env m cfg = []" using that by (simp add: cpu_cands_def)
    then show ?thesis using ty by (auto simp: run_checks_fired_types candidates_types)
  qed
  have ram: "''RAM_HIGH'' \<notin> fired_types st (run_checks env now m cfg st)"
    if "ram_usage m = None"
  proof -
    have "ram_cands env m cfg = []" using that by (simp add: ram_cands_def)
    then show ?thesis using ty by (auto simp: run_checks_fired_types candidates_types)
  qed
  have disk: "''DISK_HIGH'' \<notin> fired_types st (run_checks env now m cfg st)"
    if "disk_usage m = None"
  proof -
    have "disk_cands env m cfg = []" using that by (simp add: disk_cands_def)
    then show ?thesis using ty by (auto simp: run_checks_fired_types candidates_types)
  qed
  have svc: "''SERVICE_DOWN'' \<notin> fired_types st (run_checks env now m cfg st)"
    if "services m = None"
  proof -
    have "service_cands m cfg = []" using that by (simp add: service_cands_def)
    then show ?thesis using ty by (auto simp: run_checks_fired_types candidates_types)
  qed
  have ssh: "''SSH_BRUTE_FORCE'' \<notin> fired_types st (run_checks env now m cfg st)"
    if "ssh_brute_force m = None"
  proof -
    have "ssh_cands env m cfg = []" using that by (simp add: ssh_cands_def)
    then show ?thesis using ty by (auto simp: run_checks_fired_types candidates_types)
  qed
  from cpu ram disk svc ssh show ?thesis by blast
qed

theorem absent_field_never_alerts_witness:
  "cpu_usage snapshot = None \<and> ram_usage snapshot = None \<and> disk_usage snapshot = None \<and>
   services snapshot = None \<and> ssh_brute_force snapshot = None \<and>
   ''CPU_HIGH'' \<notin> fired_types st0 (run_checks env_up 0 snapshot default_AlertConfig st0) \<and>
   ''RAM_HIGH'' \<notin> fired_types st0 (run_checks env_up 0 snapshot default_AlertConfig st0) \<and>
   ''DISK_HIGH'' \<notin> fired_types st0 (run_checks env_up 0 snapshot default_AlertConfig st0) \<and>
   ''SERVICE_DOWN'' \<notin> fired_types st0 (run_checks env_up 0 snapshot default_AlertConfig st0) \<and>
   ''SSH_BRUTE_FORCE'' \<notin> fired_types st0 (run_checks env_up 0 snapshot default_AlertConfig st0)"
  using absent_field_never_alerts [of snapshot st0 env_up 0 default_AlertConfig]
  by (simp add: snapshot_def)

lemma filter_sent_other:
  "fst ` set cs \<subseteq> {T} \<Longrightarrow> T \<noteq> T' \<Longrightarrow> filter (\<lambda>v. fst v = T') (map sent_of_cand cs) = []"
  by (induction cs) auto

lemma filter_sent_same:
  "fst ` set cs \<subseteq> {T} \<Longrightarrow> filter (\<lambda>v. fst v = T) (map sent_of_cand cs) = map sent_of_cand cs"
  by (induction cs) auto

lemma filter_alert_other:
  "fst ` set cs \<subseteq> {T} \<Longrightarrow> T \<noteq> T' \<Longrightarrow>
   filter (\<lambda>v. fst (snd v) = T') (map (alert_of_cand m) cs) = []"
  by (induction cs) auto

lemma filter_alert_same:
  "fst ` set cs \<subseteq> {T} \<Longrightarrow>
   filter (\<lambda>v. fst (snd v) = T) (map (alert_of_cand m) cs) = map (alert_of_cand m) cs"
  by (induction cs) auto

lemma sent_disk_only:
  "filter (\<lambda>v. fst v = ''DISK_HIGH'') (map sent_of_cand (candidates env m cfg)) =
     map sent_of_cand (disk_cands env m cfg)"
  by (simp add: candidates_def
        filter_sent_other [OF cpu_cands_type] filter_sent_other [OF ram_cands_type]
        filter_sent_same [OF disk_cands_type] filter_sent_other [OF service_cands_type]
        filter_sent_other [OF ssh_cands_type])

lemma alert_disk_only:
  "filter (\<lambda>v. fst (snd v) = ''DISK_HIGH'') (map (alert_of_cand m) (candidates env m cfg)) =
     map (alert_of_cand m) (disk_cands env m cfg)"
  by (simp add: candidates_def
        filter_alert_other [OF cpu_cands_type] filter_alert_other [OF ram_cands_type]
        filter_alert_same [OF disk_cands_type] filter_alert_other [OF service_cands_type]
        filter_alert_other [OF ssh_cands_type])

lemma alert_ssh_only:
  "filter (\<lambda>v. fst (snd v) = ''SSH_BRUTE_FORCE'') (map (alert_of_cand m) (candidates env m cfg)) =
     map (alert_of_cand m) (ssh_cands env m cfg)"
  by (simp add: candidates_def
        filter_alert_other [OF cpu_cands_type] filter_alert_other [OF ram_cands_type]
        filter_alert_other [OF disk_cands_type] filter_alert_other [OF service_cands_type]
        filter_alert_same [OF ssh_cands_type])

lemma alert_cpu_only:
  "filter (\<lambda>v. fst (snd v) = ''CPU_HIGH'') (map (alert_of_cand m) (candidates env m cfg)) =
     map (alert_of_cand m) (cpu_cands env m cfg)"
  by (simp add: candidates_def
        filter_alert_same [OF cpu_cands_type] filter_alert_other [OF ram_cands_type]
        filter_alert_other [OF disk_cands_type] filter_alert_other [OF service_cands_type]
        filter_alert_other [OF ssh_cands_type])

subsection \<open>Disk usage\<close>

text \<open>
  Claim C3. For a snapshot with a disk-usage map, the \<^verbatim>\<open>DISK_HIGH\<close> entries of
  \<^verbatim>\<open>alerts_sent\<close> and the \<^verbatim>\<open>DISK_HIGH\<close> alerts stored by the checks are, in the order
  of the map, one for each path whose usage is strictly above the policy's disk
  threshold, and none for a path at or below it. With the map
  \<^verbatim>\<open>{"/data": 95, "/backup": 40}\<close> and the threshold 90 there is one, for \<^verbatim>\<open>/data\<close>.
\<close>

theorem disk_high_per_path:
  assumes "disk_usage m = Some items"
  shows "filter (\<lambda>v. fst v = ''DISK_HIGH'') (sent_views (run_checks env now m cfg st)) =
           map (\<lambda>pu. (''DISK_HIGH'', Some (fst pu), None))
             (filter (\<lambda>pu. disk_threshold cfg < snd pu) items) \<and>
         filter (\<lambda>v. fst (snd v) = ''DISK_HIGH'')
             (new_alert_views st (snd (run_checks env now m cfg st))) =
           map (\<lambda>pu. (agent_name m, ''DISK_HIGH'', disk_message env (fst pu) (snd pu) cfg))
             (filter (\<lambda>pu. disk_threshold cfg < snd pu) items)"
proof -
  have d: "disk_cands env m cfg =
             map (disk_cand env cfg) (filter (\<lambda>pu. disk_threshold cfg < snd pu) items)"
    using assms by (simp add: disk_cands_def)
  have s: "map sent_of_cand (disk_cands env m cfg) =
             map (\<lambda>pu. (''DISK_HIGH'', Some (fst pu), None))
               (filter (\<lambda>pu. disk_threshold cfg < snd pu) items)"
    by (simp add: d sent_of_cand_def disk_cand_def)
  have a: "map (alert_of_cand m) (disk_cands env m cfg) =
             map (\<lambda>pu. (agent_name m, ''DISK_HIGH'', disk_message env (fst pu) (snd pu) cfg))
               (filter (\<lambda>pu. disk_threshold cfg < snd pu) items)"
    by (simp add: d alert_of_cand_def disk_cand_def)
  show ?thesis
    by (simp only: run_checks_sent run_checks_new sent_disk_only alert_disk_only s a)
qed

theorem disk_high_per_path_witness:
  "disk_usage (snapshot\<lparr>disk_usage := Some [(''/data'', 95), (''/backup'', 40)]\<rparr>) =
     Some [(''/data'', 95), (''/backup'', 40)] \<and>
   filter (\<lambda>v. fst v = ''DISK_HIGH'')
     (sent_views (run_checks env_up 0
        (snapshot\<lparr>disk_usage := Some [(''/data'', 95), (''/backup'', 40)]\<rparr>)
        (default_AlertConfig\<lparr>disk_threshold := 90\<rparr>) st0)) =
     [(''DISK_HIGH'', Some ''/data'', None)]"
  using disk_high_per_path [of "snapshot\<lparr>disk_usage := Some [(''/data'', 95), (''/backup'', 40)]\<rparr>"
      "[(''/data'', 95), (''/backup'', 40)]" env_up 0
      "default_AlertConfig\<lparr>disk_threshold := 90\<rparr>" st0]
  by simp

lemma str_int_zero: "str_int 0 = ''0''"
  by (simp add: str_int_def str_nat.simps)

subsection \<open>SSH brute force\<close>

text \<open>
  Claim C10. When the \<^verbatim>\<open>ssh_brute_force\<close> map of a snapshot is present but has no key
  \<^verbatim>\<open>threshold_exceeded\<close>, no \<^verbatim>\<open>SSH_BRUTE_FORCE\<close> alert is stored or listed. When the
  policy has the SSH alerts on, \<^verbatim>\<open>threshold_exceeded\<close> is true and the key
  \<^verbatim>\<open>failed_attempts\<close> is missing, exactly one \<^verbatim>\<open>SSH_BRUTE_FORCE\<close> alert is stored and
  its message reports 0 failed login attempts.
\<close>

theorem ssh_missing_keys:
  "(ssh_brute_force m = Some d \<and> map_of d ''threshold_exceeded'' = None \<longrightarrow>
      ''SSH_BRUTE_FORCE'' \<notin> fired_types st (run_checks env now m cfg st)) \<and>
   (ssh_brute_force_alerts cfg \<and> ssh_brute_force m = Some d \<and>
    map_of d ''threshold_exceeded'' = Some (VBool True) \<and>
    map_of d ''failed_attempts'' = None \<longrightarrow>
      filter (\<lambda>v. fst (snd v) = ''SSH_BRUTE_FORCE'')
        (new_alert_views st (snd (run_checks env now m cfg st))) =
      [(agent_name m, ''SSH_BRUTE_FORCE'',
        ''SSH brute force attack detected with 0 failed login attempts'')])"
proof (intro conjI impI)
  assume h: "ssh_brute_force m = Some d \<and> map_of d ''threshold_exceeded'' = None"
  have "ssh_cands env m cfg = []"
    using h by (simp add: ssh_cands_def dict_get_def)
  then show "''SSH_BRUTE_FORCE'' \<notin> fired_types st (run_checks env now m cfg st)"
    using cpu_cands_type [of env m cfg] ram_cands_type [of env m cfg]
      disk_cands_type [of env m cfg] service_cands_type [of m cfg]
    by (auto simp: run_checks_fired_types candidates_types)
next
  assume h: "ssh_brute_force_alerts cfg \<and> ssh_brute_force m = Some d \<and>
    map_of d ''threshold_exceeded'' = Some (VBool True) \<and>
    map_of d ''failed_attempts'' = None"
  have "ssh_cands env m cfg =
          [(''SSH_BRUTE_FORCE'', ssh_message env (VInt 0), None, None)]"
    using h by (simp add: ssh_cands_def dict_get_def)
  moreover have "ssh_message env (VInt 0) =
      ''SSH brute force attack detected with 0 failed login attempts''"
    by (simp add: ssh_message_def str_int_zero)
  ultimately show "filter (\<lambda>v. fst (snd v) = ''SSH_BRUTE_FORCE'')
        (new_alert_views st (snd (run_checks env now m cfg st))) =
      [(agent_name m, ''SSH_BRUTE_FORCE'',
        ''SSH brute force attack detected with 0 failed login attempts'')]"
    by (simp add: run_checks_new alert_ssh_only alert_of_cand_def)
qed

theorem ssh_missing_keys_witness:
  "ssh_brute_force (snapshot\<lparr>ssh_brute_force := Some [(''failed_attempts'', VInt 7)]\<rparr>) =
     Some [(''failed_attempts'', VInt 7)] \<and>
   map_of [(''failed_attempts'', VInt 7)] ''threshold_exceeded'' = None \<and>
   ''SSH_BRUTE_FORCE'' \<notin> fired_types st0
      (run_checks env_up 0 (snapshot\<lparr>ssh_brute_force := Some [(''failed_attempts'', VInt 7)]\<rparr>)
         default_AlertConfig st0) \<and>
   ssh_brute_force_alerts default_AlertConfig \<and>
   ssh_brute_force (snapshot\<lparr>ssh_brute_force := Some [(''threshold_exceeded'', VBool True)]\<rparr>) =
     Some [(''threshold_exceeded'', VBool True)] \<and>
   map_of [(''threshold_exceeded'', VBool True)] ''threshold_exceeded'' = Some (VBool True) \<and>
   map_of [(''threshold_exceeded'', VBool True)] ''failed_attempts'' = None \<and>
   filter (\<lambda>v. fst (snd v) = ''SSH_BRUTE_FORCE'')
     (new_alert_views st0
        (snd (run_checks env_up 0
                (snapshot\<lparr>ssh_brute_force := Some [(''threshold_exceeded'', VBool True)]\<rparr>)
                default_AlertConfig st0))) =
     [(''web1'', ''SSH_BRUTE_FORCE'',
       ''SSH brute force attack detected with 0 failed login attempts'')]"
  using ssh_missing_keys [where m = "snapshot\<lparr>ssh_brute_force := Some [(''failed_attempts'', VInt 7)]\<rparr>"
      and d = "[(''failed_attempts'', VInt 7)]" and st = st0 and env = env_up and now = 0
      and cfg = default_AlertConfig]
    ssh_missing_keys [where m = "snapshot\<lparr>ssh_brute_force := Some [(''threshold_exceeded'', VBool True)]\<rparr>"
      and d = "[(''threshold_exceeded'', VBool True)]" and st = st0 and env = env_up and now = 0
      and cfg = default_AlertConfig]
  by (simp add: default_AlertConfig_def snapshot_def)

lemma find_upsert_config:
  "(case find (\<lambda>a. name a = n) (upsert_agent n h t as) of
      None \<Rightarrow> None | Some a \<Rightarrow> alert_config a) =
   (case find (\<lambda>a. name a = n) as of None \<Rightarrow> None | Some a \<Rightarrow> alert_config a)"
  by (induction as) auto

lemma get_alert_config_stored:
  "get_alert_config env st agent =
     (case stored_config st agent of
        None \<Rightarrow> Inr default_AlertConfig
      | Some d \<Rightarrow> AlertConfig_init env d)"
  by (simp add: get_alert_config_def stored_config_def split: option.splits)

lemma get_alert_config_upsert:
  "get_alert_config env
     (st\<lparr>metrics_collection := ms,
         agents_collection := upsert_agent n h t (agents_collection st)\<rparr>) n =
   get_alert_config env st n"
  by (simp add: get_alert_config_stored stored_config_def find_upsert_config)

lemma receive_metrics_alerts:
  assumes "x_api_key \<in> set (API_KEYS env)"
    and "get_alert_config env st (agent_name m) = Inr cfg"
  shows "\<exists>st'. receive_metrics env now x_api_key m st = Inr st' \<and>
           alert_views st' = alert_views st @ map (alert_of_cand m) (candidates env m cfg)"
proof -
  define st2 where "st2 = st\<lparr>metrics_collection := metrics_collection st @ [m],
      agents_collection := upsert_agent (agent_name m) (hostname m) now (agents_collection st)\<rparr>"
  have c: "get_alert_config env st2 (agent_name m) = Inr cfg"
    unfolding st2_def using assms(2) by (simp only: get_alert_config_upsert)
  have v: "alert_views st2 = alert_views st"
    by (simp add: st2_def alert_views_def)
  have "receive_metrics env now x_api_key m st = Inr (snd (run_checks env now m cfg st2))"
    using assms(1) c
    by (simp add: receive_metrics_def verify_api_key_def check_thresholds_def st2_def Let_def)
  then show ?thesis by (simp add: run_checks_alerts v)
qed

lemma count_alerts_append:
  "alert_views st' = alert_views st @ map (alert_of_cand m) cs \<Longrightarrow>
   count_alerts (agent_name m) ty st' =
     count_alerts (agent_name m) ty st
     + length (filter (\<lambda>v. fst (snd v) = ty) (map (alert_of_cand m) cs))"
proof -
  have "filter (\<lambda>v. fst v = agent_name m \<and> fst (snd v) = ty) (map (alert_of_cand m) cs) =
          filter (\<lambda>v. fst (snd v) = ty) (map (alert_of_cand m) cs)"
    by (induction cs) (auto simp: alert_of_cand_def split: prod.splits)
  then show "alert_views st' = alert_views st @ map (alert_of_cand m) cs \<Longrightarrow>
   count_alerts (agent_name m) ty st' =
     count_alerts (agent_name m) ty st
     + length (filter (\<lambda>v. fst (snd v) = ty) (map (alert_of_cand m) cs))"
    by (simp add: count_alerts_def)
qed

subsection \<open>Repeated submissions\<close>

text \<open>
  Claim C1, as amended. \<^verbatim>\<open>check_thresholds\<close> keeps no record of what it has alerted
  on: every accepted submission of a snapshot whose \<^verbatim>\<open>cpu_usage\<close> is above the cpu
  threshold of the agent's policy stores exactly one more \<^verbatim>\<open>CPU_HIGH\<close> alert for that
  agent, whatever was stored before and however short the time since the last one.
\<close>

theorem every_submission_alerts:
  assumes "x_api_key \<in> set (API_KEYS env)"
    and "get_alert_config env st (agent_name m) = Inr cfg"
    and "cpu_usage m = Some c"
    and "cpu_threshold cfg < c"
  shows "\<exists>st'. receive_metrics env now x_api_key m st = Inr st' \<and>
           count_alerts (agent_name m) ''CPU_HIGH'' st' =
             count_alerts (agent_name m) ''CPU_HIGH'' st + 1"
proof -
  from receive_metrics_alerts [OF assms(1,2), of now] obtain st' where
    r: "receive_metrics env now x_api_key m st = Inr st'" and
    v: "alert_views st' = alert_views st @ map (alert_of_cand m) (candidates env m cfg)"
    by blast
  have "length (cpu_cands env m cfg) = 1"
    using assms(3,4) by (simp add: cpu_cands_def)
  then have "count_alerts (agent_name m) ''CPU_HIGH'' st' =
             count_alerts (agent_name m) ''CPU_HIGH'' st + 1"
    by (simp add: count_alerts_append [OF v] alert_cpu_only)
  with r show ?thesis by blast
qed

lemma get_alert_config_st0: "get_alert_config env st0 agent = Inr default_AlertConfig"
  by (simp add: get_alert_config_def st0_def)

theorem every_submission_alerts_witness:
  "''k1'' \<in> set (API_KEYS env_up) \<and>
   get_alert_config env_up st0 (agent_name (snapshot\<lparr>cpu_usage := Some 92\<rparr>)) =
     Inr default_AlertConfig \<and>
   cpu_usage (snapshot\<lparr>cpu_usage := Some 92\<rparr>) = Some 92 \<and>
   cpu_threshold default_AlertConfig < 92 \<and>
   (\<exists>st'. receive_metrics env_up 0 ''k1'' (snapshot\<lparr>cpu_usage := Some 92\<rparr>) st0 = Inr st' \<and>
      count_alerts (agent_name (snapshot\<lparr>cpu_usage := Some 92\<rparr>)) ''CPU_HIGH'' st' =
        count_alerts (agent_name (snapshot\<lparr>cpu_usage := Some 92\<rparr>)) ''CPU_HIGH'' st0 + 1)"
proof -
  have a: "''k1'' \<in> set (API_KEYS env_up)" by (simp add: env_up_def)
  have b: "get_alert_config env_up st0 (agent_name (snapshot\<lparr>cpu_usage := Some 92\<rparr>)) =
     Inr default_AlertConfig" by (rule get_alert_config_st0)
  have c: "cpu_usage (snapshot\<lparr>cpu_usage := Some 92\<rparr>) = Some 92" by simp
  have d: "cpu_threshold default_AlertConfig < 92" by (simp add: default_AlertConfig_def)
  from every_submission_alerts [OF a b c d, of 0] a b c d show ?thesis by blast
qed

text \<open>The claim as stated fails: the snapshot with cpu 92 against the default
  threshold 80, submitted at time 0 and again one second later, leaves two
  \<^verbatim>\<open>CPU_HIGH\<close> alerts, not one.\<close>

theorem duplicate_cpu_alert_counterexample:
  "count_alerts ''web1'' ''CPU_HIGH''
     (submissions env_up ''k1''
        [(0, snapshot\<lparr>cpu_usage := Some 92\<rparr>), (1, snapshot\<lparr>cpu_usage := Some 92\<rparr>)] st0) = 2"
  by (simp add: receive_metrics_def verify_api_key_def check_thresholds_def
        get_alert_config_def run_checks_def check_cpu_def check_ram_def check_disk_def
        check_services_def check_ssh_def send_and_record_def send_alert_def insert_alert_def
        send_email_alert_def send_telegram_alert_def send_discord_alert_def log_event_def
        env_up_def st0_def snapshot_def default_AlertConfig_def count_alerts_def
        alert_views_def alert_view_def Let_def)

section \<open>Resolution, dispatch and acknowledgement\<close>

subsection \<open>Policy resolution\<close>

text \<open>
  Claim C9, as amended. When the agent has no stored alert configuration (no document,
  or a document without \<^verbatim>\<open>alert_config\<close>), \<^verbatim>\<open>check_thresholds\<close> runs its checks with
  the default thresholds; when the stored configuration passes validation, it runs them
  with that configuration; when validation fails, \<^verbatim>\<open>check_thresholds\<close> ends with the
  validation error, without running any check and without falling back to the defaults.
\<close>

theorem policy_resolution:
  "(stored_config st (agent_name m) = None \<longrightarrow>
      check_thresholds env now m st = Inr (run_checks env now m default_AlertConfig st)) \<and>
   (stored_config st (agent_name m) = Some d \<and> AlertConfig_init env d = Inr cfg \<longrightarrow>
      check_thresholds env now m st = Inr (run_checks env now m cfg st)) \<and>
   (stored_config st (agent_name m) = Some d \<and> AlertConfig_init env d = Inl e \<longrightarrow>
      check_thresholds env now m st = Inl e)"
  by (simp add: check_thresholds_def get_alert_config_stored)

theorem policy_resolution_witness:
  "stored_config st0 (agent_name snapshot) = None \<and>
   check_thresholds env_up 0 snapshot st0 =
     Inr (run_checks env_up 0 snapshot default_AlertConfig st0) \<and>
   stored_config st_tuned (agent_name snapshot) = Some [(''cpu_threshold'', VFloat 50)] \<and>
   AlertConfig_init env_up [(''cpu_threshold'', VFloat 50)] =
     Inr (default_AlertConfig\<lparr>cpu_threshold := 50\<rparr>) \<and>
   check_thresholds env_up 0 snapshot st_tuned =
     Inr (run_checks env_up 0 snapshot (default_AlertConfig\<lparr>cpu_threshold := 50\<rparr>) st_tuned) \<and>
   stored_config st_bad (agent_name snapshot) = Some [(''cpu_threshold'', VNone)] \<and>
   AlertConfig_init env_up [(''cpu_threshold'', VNone)] = Inl (ValidationError ''AlertConfig'') \<and>
   check_thresholds env_up 0 snapshot st_bad = Inl (ValidationError ''AlertConfig'')"
proof -
  have a: "stored_config st0 (agent_name snapshot) = None"
    by (simp add: stored_config_def st0_def)
  have b: "stored_config st_tuned (agent_name snapshot) = Some [(''cpu_threshold'', VFloat 50)]"
    by (simp add: stored_config_def st_tuned_def st0_def snapshot_def)
  have c: "AlertConfig_init env_up [(''cpu_threshold'', VFloat 50)] =
     Inr (default_AlertConfig\<lparr>cpu_threshold := 50\<rparr>)"
    by (simp add: AlertConfig_init_def float_field_def bool_field_def env_up_def
          default_AlertConfig_def)
  have d: "stored_config st_bad (agent_name snapshot) = Some [(''cpu_threshold'', VNone)]"
    by (simp add: stored_config_def st_bad_def st0_def snapshot_def)
  have e: "AlertConfig_init env_up [(''cpu_threshold'', VNone)] =
     Inl (ValidationError ''AlertConfig'')"
    by (simp add: AlertConfig_init_def float_field_def env_up_def)
  show ?thesis
    using a b c d e
      policy_resolution [where st = st0 and m = snapshot and env = env_up and now = 0]
      policy_resolution [where st = st_tuned and m = snapshot and env = env_up and now = 0
        and d = "[(''cpu_threshold'', VFloat 50)]"
        and cfg = "default_AlertConfig\<lparr>cpu_threshold := 50\<rparr>"]
      policy_resolution [where st = st_bad and m = snapshot and env = env_up and now = 0
        and d = "[(''cpu_threshold'', VNone)]" and e = "ValidationError ''AlertConfig''"]
    by simp
qed

text \<open>The claim as stated fails: with a stored \<^verbatim>\<open>cpu_threshold\<close> of null, which the
  validator refuses, the evaluation of a snapshot with cpu 99 is aborted.\<close>

theorem policy_failure_aborts_counterexample:
  "check_thresholds env_up 0 (snapshot\<lparr>cpu_usage := Some 99\<rparr>) st_bad =
     Inl (ValidationError ''AlertConfig'')"
  by (simp add: check_thresholds_def get_alert_config_def st_bad_def st0_def snapshot_def
        AlertConfig_init_def float_field_def env_up_def)

lemma send_alert_journal:
  "\<exists>evs. map attempted evs = map Some (filter (enabled env) [Email, Telegram, Discord]) \<and>
     journal (snd (send_alert env now ty agent host msg st)) =
       journal st @ AlertStored (ObjectId (next_oid st)) # evs"
  using send_alert_effect [of env now ty agent host msg st] by auto

subsection \<open>The alert record and the channel sends\<close>

text \<open>
  Claim C6. \<^verbatim>\<open>send_alert\<close> inserts the alert record before it calls any channel: the
  journal of a call begins with the insertion and continues with channel sends only.
  Whatever the channels answer, the record, unacknowledged, is at the end of the alerts
  collection afterwards, and the id returned is that of the record: it is the same under
  any other environment, so the same whether the sends succeed or fail.
\<close>

theorem alert_recorded_before_sends:
  "fst (send_alert env now ty agent host msg st) = str_ObjectId (next_oid st) \<and>
   fst (send_alert env now ty agent host msg st) = fst (send_alert env' now ty agent host msg st) \<and>
   alerts_collection (snd (send_alert env now ty agent host msg st)) =
     alerts_collection st @ [new_doc st now ty agent host msg] \<and>
   take (Suc (length (journal st))) (journal (snd (send_alert env now ty agent host msg st))) =
     journal st @ [AlertStored (ObjectId (next_oid st))] \<and>
   list_all (\<lambda>e. attempted e \<noteq> None)
     (drop (Suc (length (journal st))) (journal (snd (send_alert env now ty agent host msg st))))"
proof -
  obtain evs where m: "map attempted evs = map Some (filter (enabled env) [Email, Telegram, Discord])"
    and j: "journal (snd (send_alert env now ty agent host msg st)) =
       journal st @ AlertStored (ObjectId (next_oid st)) # evs"
    using send_alert_journal by blast
  have "list_all (\<lambda>e. attempted e \<noteq> None) evs"
  proof -
    have "\<forall>x \<in> set (map attempted evs). x \<noteq> None" unfolding m by auto
    then show ?thesis by (simp add: list_all_iff)
  qed
  then show ?thesis
    by (simp add: send_alert_fst send_alert_alerts j)
qed

text \<open>
  Claim C5, as amended. For every alert and every setting of the three channel
  switches, \<^verbatim>\<open>send_alert\<close> attempts each enabled channel exactly once, in the order
  email, Telegram, Discord, whatever the outcome of the other channels; no channel
  failure raises out of it (the function always returns). Each channel function logs
  its own outcome; \<^verbatim>\<open>send_alert\<close> returns the alert id only, not the outcomes.
\<close>

theorem every_enabled_channel_attempted:
  "map attempted
     (drop (Suc (length (journal st))) (journal (snd (send_alert env now ty agent host msg st)))) =
     map Some (filter (enabled env) [Email, Telegram, Discord]) \<and>
   fst (send_alert env now ty agent host msg st) = str_ObjectId (next_oid st)"
proof -
  obtain evs where m: "map attempted evs = map Some (filter (enabled env) [Email, Telegram, Discord])"
    and j: "journal (snd (send_alert env now ty agent host msg st)) =
       journal st @ AlertStored (ObjectId (next_oid st)) # evs"
    using send_alert_journal by blast
  show ?thesis by (simp add: j m send_alert_fst)
qed

text \<open>The claim as stated fails in what is returned: with all three channels
  delivering and with all three raising, \<^verbatim>\<open>send_alert\<close> returns the same value.\<close>

theorem dispatch_returns_no_outcomes_counterexample:
  "fst (send_alert env_up 0 ''CPU_HIGH'' ''web1'' ''host1'' ''high'' st0) =
     fst (send_alert env_down 0 ''CPU_HIGH'' ''web1'' ''host1'' ''high'' st0) \<and>
   journal (snd (send_alert env_up 0 ''CPU_HIGH'' ''web1'' ''host1'' ''high'' st0)) =
     [AlertStored (ObjectId 0), ChannelSent Email, ChannelSent Telegram, ChannelSent Discord] \<and>
   journal (snd (send_alert env_down 0 ''CPU_HIGH'' ''web1'' ''host1'' ''high'' st0)) =
     [AlertStored (ObjectId 0), ChannelFailed Email, ChannelFailed Telegram,
      ChannelFailed Discord]"
  by (simp add: send_alert_def insert_alert_def send_email_alert_def send_telegram_alert_def
        send_discord_alert_def log_event_def env_up_def env_down_def st0_def Let_def)

subsection \<open>Acknowledging an alert\<close>

text \<open>The query of \<^verbatim>\<open>acknowledge_alert\<close> carries a string, so it matches no document
  whose id is an ObjectId: on a collection that only \<^verbatim>\<open>send_alert\<close> has written to,
  the endpoint never succeeds. \<^verbatim>\<open>update_agent_config\<close>, which tests \<^verbatim>\<open>matched_count\<close>,
  succeeds for every agent that exists.\<close>

lemma ack_update_one_no_match:
  "\<forall>d \<in> set ds. alert_id d \<noteq> q \<Longrightarrow> ack_update_one q ds = (ds, 0, 0)"
  by (induction ds) auto

lemma acknowledge_alert_no_string_id:
  assumes "\<forall>d \<in> set (alerts_collection st). \<exists>n. alert_id d = ObjectId n"
  shows "\<exists>e. acknowledge_alert env x_api_key aid st = Inl e"
proof -
  have "\<forall>d \<in> set (alerts_collection st). alert_id d \<noteq> IdStr aid"
    using assms by auto
  then have "ack_update_one (IdStr aid) (alerts_collection st) = (alerts_collection st, 0, 0)"
    by (rule ack_update_one_no_match)
  then show ?thesis
    by (simp add: acknowledge_alert_def split: sum.splits)
qed

lemma config_update_one_matched:
  "snd (config_update_one n d as) = (if n \<in> name ` set as then 1 else 0)"
  by (induction as) (auto split: prod.splits)

lemma update_agent_config_existing:
  assumes "x_api_key \<in> set (API_KEYS env)" and "agent \<in> name ` set (agents_collection st)"
  shows "\<exists>st'. update_agent_config env x_api_key agent config st = Inr st'"
  using assms config_update_one_matched [of agent "AlertConfig_dict config" "agents_collection st"]
  by (auto simp: update_agent_config_def verify_api_key_def split: prod.splits)

text \<open>
  Claim C8 does not hold of the code. An alert stored by \<^verbatim>\<open>send_alert\<close> has an
  ObjectId; \<^verbatim>\<open>acknowledge_alert\<close> queries with the string it was given, so the call
  with the id that \<^verbatim>\<open>send_alert\<close> returned answers 404 although the alert exists. And
  since the test is on \<^verbatim>\<open>modified_count\<close>, an alert that is found but already
  acknowledged answers 404 as well, where the same alert, not yet acknowledged, is
  acknowledged with success.
\<close>

theorem acknowledge_existing_alert_not_found:
  "acknowledge_alert env_up ''k1''
     (fst (send_alert env_up 0 ''CPU_HIGH'' ''web1'' ''host1'' ''high'' st0))
     (snd (send_alert env_up 0 ''CPU_HIGH'' ''web1'' ''host1'' ''high'' st0)) =
     Inl (HTTPException 404 ''Alert not found'') \<and>
   acknowledge_alert env_up ''k1'' ''a1'' st_acked = Inl (HTTPException 404 ''Alert not found'') \<and>
   acknowledge_alert env_up ''k1'' ''a1''
     (st_acked\<lparr>alerts_collection := map (\<lambda>d. d\<lparr>acknowledged := False\<rparr>) (alerts_collection st_acked)\<rparr>)
     = Inr st_acked"
proof -
  have a: "alerts_collection (snd (send_alert env_up 0 ''CPU_HIGH'' ''web1'' ''host1'' ''high'' st0))
      = [new_doc st0 0 ''CPU_HIGH'' ''web1'' ''host1'' ''high'']"
    by (simp add: send_alert_alerts st0_def)
  have k: "''k1'' \<in> set (API_KEYS env_up)" by (simp add: env_up_def)
  have 1: "acknowledge_alert env_up ''k1''
     (fst (send_alert env_up 0 ''CPU_HIGH'' ''web1'' ''host1'' ''high'' st0))
     (snd (send_alert env_up 0 ''CPU_HIGH'' ''web1'' ''host1'' ''high'' st0)) =
     Inl (HTTPException 404 ''Alert not found'')"
    using k by (simp add: acknowledge_alert_def verify_api_key_def a new_doc_def)
  have 2: "acknowledge_alert env_up ''k1'' ''a1'' st_acked =
      Inl (HTTPException 404 ''Alert not found'')"
    using k by (simp add: acknowledge_alert_def verify_api_key_def st_acked_def st0_def)
  have 3: "acknowledge_alert env_up ''k1'' ''a1''
     (st_acked\<lparr>alerts_collection := map (\<lambda>d. d\<lparr>acknowledged := False\<rparr>) (alerts_collection st_acked)\<rparr>)
     = Inr st_acked"
    using k by (simp add: acknowledge_alert_def verify_api_key_def st_acked_def st0_def)
  from 1 2 3 show ?thesis by blast
qed

section \<open>Inactive agents\<close>

text \<open>Agent documents are created by the upsert of \<^verbatim>\<open>receive_metrics\<close> only, which
  keeps one document per name.\<close>

lemma set_names_upsert:
  "name ` set (upsert_agent n h t as) = insert n (name ` set as)"
  by (induction as) auto

lemma distinct_names_upsert:
  "distinct (map name as) \<Longrightarrow> distinct (map name (upsert_agent n h t as))"
proof (induction as)
  case Nil
  show ?case by simp
next
  case (Cons a as)
  show ?case
  proof (cases "name a = n")
    case True
    with Cons.prems show ?thesis by simp
  next
    case False
    with Cons show ?thesis by (simp add: set_names_upsert)
  qed
qed

lemma inactive_loop_Cons:
  "inactive_loop env now (agent # rest) st =
     (if flag_absent env now st agent
      then inactive_loop env now rest (alert_inactive env now agent st)
      else inactive_loop env now rest st)"
  by (simp add: flag_absent_def alert_inactive_def Let_def)

lemma inactive_loop_single:
  "inactive_loop env now [agent] st =
     (if flag_absent env now st agent then alert_inactive env now agent st else st)"
  by (simp add: flag_absent_def alert_inactive_def Let_def)

lemma inactive_loop_Nil: "inactive_loop env now [] st = st"
  by simp

declare inactive_loop.simps [simp del]

lemma alert_inactive_views:
  "alert_views (alert_inactive env now agent st) = alert_views st @ [inactive_view agent]"
proof -
  have "alert_views (alert_inactive env now agent st) =
          alert_views (snd (send_alert env now ''AGENT_INACTIVE'' (name agent)
                              (agent_hostname agent) inactive_message st))"
    by (simp add: alert_inactive_def alert_views_def Let_def)
  then show ?thesis by (simp add: send_alert_views inactive_view_def)
qed

lemma alert_inactive_new:
  "new_alert_views st (alert_inactive env now agent st) = [inactive_view agent]"
  by (simp add: new_alert_views_def alert_inactive_views)

lemma alert_inactive_redis:
  "redis (alert_inactive env now agent st) =
     (redis st)(alert_key_of agent \<mapsto>
        (''1'', Some (redis_time_set env now (alert_key_of agent) + 3600)))"
  by (simp add: alert_inactive_def Let_def send_alert_redis redis_set_def)

lemma alert_key_of_inj: "alert_key_of a = alert_key_of b \<longleftrightarrow> name a = name b"
  by (simp add: alert_key_of_def)

lemma flag_absent_other:
  "name b \<noteq> name a \<Longrightarrow>
   flag_absent env now (alert_inactive env now a st) b = flag_absent env now st b"
  by (simp add: flag_absent_def alert_inactive_redis redis_get_def alert_key_of_inj)

lemma inactive_loop_views:
  "distinct (map name as) \<Longrightarrow>
   alert_views (inactive_loop env now as st) =
     alert_views st @ map inactive_view (filter (flag_absent env now st) as)"
proof (induction as arbitrary: st)
  case Nil
  show ?case by (simp add: inactive_loop_Nil)
next
  case (Cons a as)
  from Cons.prems have d: "distinct (map name as)" and na: "name a \<notin> name ` set as"
    by simp_all
  have n: "\<forall>b \<in> set as. name b \<noteq> name a"
    using na by (metis imageI)
  show ?case
  proof (cases "flag_absent env now st a")
    case True
    have "filter (flag_absent env now (alert_inactive env now a st)) as =
            filter (flag_absent env now st) as"
      using n by (intro filter_cong refl) (simp add: flag_absent_other)
    then show ?thesis
      using True
      by (simp only: inactive_loop_Cons if_True Cons.IH [OF d] alert_inactive_views
            filter.simps list.map append_assoc append_Cons append_Nil)
  next
    case False
    then show ?thesis
      by (simp only: inactive_loop_Cons if_False Cons.IH [OF d] filter.simps)
  qed
qed

lemma inactive_agents_filter:
  "inactive_agents now st = filter (\<lambda>a. 600 < now - last_seen a) (agents_collection st)"
  unfolding inactive_agents_def Let_def by (rule filter_cong) auto

subsection \<open>The liveness sweep\<close>

text \<open>
  Claim C7. In a sweep at time \<open>now\<close> the inactive agents are exactly the agents whose
  \<^verbatim>\<open>last_seen\<close> is more than 600 seconds before \<open>now\<close>, each once; an agent seen
  within the last 600 seconds is not among them. With one document per agent name, the
  sweep stores one \<^verbatim>\<open>AGENT_INACTIVE\<close> alert for each inactive agent that has no live
  flag in Redis, and no other alert. An agent last seen 601 seconds ago is alerted on, an
  agent last seen 599 seconds ago is not.
\<close>

theorem inactive_agents_alerted:
  assumes "distinct (map name (agents_collection st))"
  shows "inactive_agents now st = filter (\<lambda>a. 600 < now - last_seen a) (agents_collection st) \<and>
         new_alert_views st (check_agent_status env now st) =
           map inactive_view
             (filter (\<lambda>a. 600 < now - last_seen a \<and> flag_absent env now st a)
                (agents_collection st))"
proof -
  have d: "distinct (map name (inactive_agents now st))"
    unfolding inactive_agents_filter using assms by (rule distinct_map_filter)
  have "alert_views (check_agent_status env now st) =
          alert_views st @
          map inactive_view (filter (flag_absent env now st) (inactive_agents now st))"
    unfolding check_agent_status_def by (rule inactive_loop_views [OF d])
  then have "new_alert_views st (check_agent_status env now st) =
          map inactive_view (filter (flag_absent env now st) (inactive_agents now st))"
    by (simp add: new_alert_views_def)
  then show ?thesis
    by (simp add: inactive_agents_filter conj_commute)
qed

theorem inactive_agents_alerted_witness:
  "distinct (map name (agents_collection (st0\<lparr>agents_collection := [agent_web1, agent_web2]\<rparr>))) \<and>
   inactive_agents 1000 (st0\<lparr>agents_collection := [agent_web1, agent_web2]\<rparr>) = [agent_web1] \<and>
   new_alert_views (st0\<lparr>agents_collection := [agent_web1, agent_web2]\<rparr>)
     (check_agent_status env_up 1000 (st0\<lparr>agents_collection := [agent_web1, agent_web2]\<rparr>)) =
     [(''web1'', ''AGENT_INACTIVE'', ''Agent has not reported in over 10 minutes'')]"
proof -
  have d: "distinct (map name (agents_collection (st0\<lparr>agents_collection := [agent_web1, agent_web2]\<rparr>)))"
    by (simp add: agent_web1_def agent_web2_def)
  show ?thesis
    using d inactive_agents_alerted [OF d, where now = 1000 and env = env_up]
    by (simp add: agent_web1_def agent_web2_def inactive_view_def inactive_message_def
          flag_absent_def redis_get_def py_not_bytes_def st0_def env_up_def)
qed

subsection \<open>The flag in Redis\<close>

lemma flag_absent_iff:
  "flag_absent env now st agent \<longleftrightarrow>
     redis_get (redis_time_get env now (alert_key_of agent)) (redis st) (alert_key_of agent) = None \<or>
     redis_get (redis_time_get env now (alert_key_of agent)) (redis st) (alert_key_of agent) = Some []"
  by (simp add: flag_absent_def py_not_bytes_def split: option.splits)

lemma flag_absent_after_alert:
  "flag_absent env t (alert_inactive env now agent st) agent \<longleftrightarrow>
     redis_time_set env now (alert_key_of agent) + 3600 < redis_time_get env t (alert_key_of agent)"
  by (simp add: flag_absent_def alert_inactive_redis redis_get_def py_not_bytes_def)

text \<open>
  Claim C4, as amended. The gate of \<^verbatim>\<open>check_agent_status\<close> is a check and set on the
  agent's key. When Redis answers no value for the key, or an empty value, the alert is
  sent and the key is set to \<^verbatim>\<open>1\<close> with an expiry time 3600 seconds after the time of
  the \<^verbatim>\<open>SET\<close>; a later sweep whose \<^verbatim>\<open>GET\<close> is served up to that expiry time changes
  nothing; a sweep whose \<^verbatim>\<open>GET\<close> is served after it sends the alert again and sets the
  key anew. When Redis answers a value that is not empty, as every value the gate writes
  is, nothing is sent and the state, the expiry time included, stays as it is.
\<close>

theorem inactive_flag_check_and_set:
  "(redis_get (redis_time_get env now (alert_key_of agent)) (redis st) (alert_key_of agent) = None \<or>
    redis_get (redis_time_get env now (alert_key_of agent)) (redis st) (alert_key_of agent) = Some []
    \<longrightarrow>
      redis (inactive_loop env now [agent] st) (alert_key_of agent) =
        Some (''1'', Some (redis_time_set env now (alert_key_of agent) + 3600)) \<and>
      new_alert_views st (inactive_loop env now [agent] st) = [inactive_view agent] \<and>
      (\<forall>t. redis_time_get env t (alert_key_of agent)
              \<le> redis_time_set env now (alert_key_of agent) + 3600 \<longrightarrow>
         inactive_loop env t [agent] (inactive_loop env now [agent] st) =
           inactive_loop env now [agent] st) \<and>
      (\<forall>t. redis_time_set env now (alert_key_of agent) + 3600
              < redis_time_get env t (alert_key_of agent) \<longrightarrow>
         new_alert_views (inactive_loop env now [agent] st)
           (inactive_loop env t [agent] (inactive_loop env now [agent] st)) =
           [inactive_view agent] \<and>
         redis (inactive_loop env t [agent] (inactive_loop env now [agent] st))
           (alert_key_of agent) =
           Some (''1'', Some (redis_time_set env t (alert_key_of agent) + 3600)))) \<and>
   (redis_get (redis_time_get env now (alert_key_of agent)) (redis st) (alert_key_of agent) = Some v
    \<and> v \<noteq> [] \<longrightarrow>
      inactive_loop env now [agent] st = st)"
proof (intro conjI impI allI)
  assume h: "redis_get (redis_time_get env now (alert_key_of agent)) (redis st)
               (alert_key_of agent) = Some v \<and> v \<noteq> []"
  then have "\<not> flag_absent env now st agent"
    by (simp add: flag_absent_iff)
  then show "inactive_loop env now [agent] st = st"
    by (simp add: inactive_loop_single)
next
  assume h: "redis_get (redis_time_get env now (alert_key_of agent)) (redis st)
               (alert_key_of agent) = None \<or>
             redis_get (redis_time_get env now (alert_key_of agent)) (redis st)
               (alert_key_of agent) = Some []"
  then have "flag_absent env now st agent"
    by (simp only: flag_absent_iff)
  then have s: "inactive_loop env now [agent] st = alert_inactive env now agent st"
    by (simp add: inactive_loop_single)
  show "redis (inactive_loop env now [agent] st) (alert_key_of agent) =
        Some (''1'', Some (redis_time_set env now (alert_key_of agent) + 3600))"
    by (simp add: s alert_inactive_redis)
  show "new_alert_views st (inactive_loop env now [agent] st) = [inactive_view agent]"
    unfolding s by (rule alert_inactive_new)
  {
    fix t
    assume t: "redis_time_get env t (alert_key_of agent)
                 \<le> redis_time_set env now (alert_key_of agent) + 3600"
    then have "\<not> flag_absent env t (alert_inactive env now agent st) agent"
      by (simp add: flag_absent_after_alert)
    then show "inactive_loop env t [agent] (inactive_loop env now [agent] st) =
           inactive_loop env now [agent] st"
      unfolding s by (simp add: inactive_loop_single)
  }
  {
    fix t
    assume t: "redis_time_set env now (alert_key_of agent) + 3600
                 < redis_time_get env t (alert_key_of agent)"
    then have "flag_absent env t (alert_inactive env now agent st) agent"
      by (simp add: flag_absent_after_alert)
    then have e: "inactive_loop env t [agent] (alert_inactive env now agent st) =
        alert_inactive env t agent (alert_inactive env now agent st)"
      by (simp add: inactive_loop_single)
    show "new_alert_views (inactive_loop env now [agent] st)
           (inactive_loop env t [agent] (inactive_loop env now [agent] st)) =
           [inactive_view agent]"
      unfolding s e by (rule alert_inactive_new)
    show "redis (inactive_loop env t [agent] (inactive_loop env now [agent] st))
           (alert_key_of agent) =
           Some (''1'', Some (redis_time_set env t (alert_key_of agent) + 3600))"
      unfolding s e by (simp add: alert_inactive_redis)
  }
qed

theorem inactive_flag_check_and_set_witness:
  "redis_get (redis_time_get env_up 0 (alert_key_of agent_web1)) (redis st0)
     (alert_key_of agent_web1) = None \<and>
   redis (inactive_loop env_up 0 [agent_web1] st0) (alert_key_of agent_web1) =
     Some (''1'', Some 3601) \<and>
   new_alert_views st0 (inactive_loop env_up 0 [agent_web1] st0) = [inactive_view agent_web1] \<and>
   inactive_loop env_up 3601 [agent_web1] (inactive_loop env_up 0 [agent_web1] st0) =
     inactive_loop env_up 0 [agent_web1] st0 \<and>
   new_alert_views (inactive_loop env_up 0 [agent_web1] st0)
     (inactive_loop env_up 3602 [agent_web1] (inactive_loop env_up 0 [agent_web1] st0)) =
     [inactive_view agent_web1] \<and>
   redis_get (redis_time_get env_up 10 (alert_key_of agent_web1)) (redis st_flagged)
     (alert_key_of agent_web1) = Some ''1'' \<and>
   inactive_loop env_up 10 [agent_web1] st_flagged = st_flagged"
proof -
  have g: "redis_time_get env_up = (\<lambda>now k. now)" and p: "redis_time_set env_up = (\<lambda>now k. now + 1)"
    by (simp_all add: env_up_def)
  have a: "redis_get (redis_time_get env_up 0 (alert_key_of agent_web1)) (redis st0)
     (alert_key_of agent_web1) = None"
    by (simp add: redis_get_def st0_def)
  have b: "redis_get (redis_time_get env_up 10 (alert_key_of agent_web1)) (redis st_flagged)
     (alert_key_of agent_web1) = Some ''1''"
    by (simp add: redis_get_def st_flagged_def g)
  show ?thesis
    using a b
      inactive_flag_check_and_set [where now = 0 and st = st0 and agent = agent_web1
        and env = env_up]
      inactive_flag_check_and_set [where now = 10 and st = st_flagged and agent = agent_web1
        and env = env_up and v = "''1''"]
    by (simp add: g p)
qed

text \<open>The claim as stated fails for a live entry whose value is empty: Redis still
  answers the key at time 10, yet the sweep sends the alert and replaces the entry,
  moving its expiry time from 3600 to 3611.\<close>

theorem live_empty_entry_counterexample:
  "redis st_empty_flag (alert_key_of agent_web1) = Some ([], Some 3600) \<and>
   redis_get (redis_time_get env_up 10 (alert_key_of agent_web1)) (redis st_empty_flag)
     (alert_key_of agent_web1) = Some [] \<and>
   new_alert_views st_empty_flag (inactive_loop env_up 10 [agent_web1] st_empty_flag) =
     [inactive_view agent_web1] \<and>
   redis (inactive_loop env_up 10 [agent_web1] st_empty_flag) (alert_key_of agent_web1) =
     Some (''1'', Some 3611)"
proof -
  have g: "redis_time_get env_up = (\<lambda>now k. now)" and p: "redis_time_set env_up = (\<lambda>now k. now + 1)"
    by (simp_all add: env_up_def)
  have r: "redis st_empty_flag (alert_key_of agent_web1) = Some ([], Some 3600)"
    by (simp add: st_empty_flag_def)
  have v: "redis_get (redis_time_get env_up 10 (alert_key_of agent_web1)) (redis st_empty_flag)
     (alert_key_of agent_web1) = Some []"
    by (simp add: redis_get_def r g)
  then have "flag_absent env_up 10 st_empty_flag agent_web1"
    by (simp add: flag_absent_iff)
  then have s: "inactive_loop env_up 10 [agent_web1] st_empty_flag =
      alert_inactive env_up 10 agent_web1 st_empty_flag"
    by (simp add: inactive_loop_single)
  have n: "new_alert_views st_empty_flag (inactive_loop env_up 10 [agent_web1] st_empty_flag) =
     [inactive_view agent_web1]"
    unfolding s by (rule alert_inactive_new)
  have e: "redis (inactive_loop env_up 10 [agent_web1] st_empty_flag) (alert_key_of agent_web1) =
     Some (''1'', Some 3611)"
    by (simp add: s alert_inactive_redis p)
  from r v n e show ?thesis by blast
qed

end
